theory Spec2Isabelle
  imports Main "HOL-Library.List_Lexorder" "HOL-Library.Word"
begin

text \<open>
  The real-time messaging subsystem of the social-media backend: the WebSocket consumer
  \<open>ChatConsumer\<close> with its channel-layer groups, the \<open>JWTAuthMiddleware\<close> that
  resolves the identity of a connection, the mutual-follow permission, the conversation
  manager and the mark-as-read view. Every function below is the Python function of the
  same name; what a method does to the outside is returned as a list of effects, an
  exception is the \<open>Inl\<close> of a sum, and the database and the groups are passed
  explicitly.
\<close>

section \<open>Python values\<close>

text \<open>
  A Python \<open>str\<close> is a sequence of Unicode code points, so it is a list of naturals
  (one per code point): \<open>len\<close> is \<open>length\<close>, \<open>==\<close> is \<open>=\<close> and \<open><\<close> is the
  lexicographic order on code points. \<open>bytes\<close> is a list of 8-bit words.
  \<open>py ''abc''\<close> is the string literal \<open>'abc'\<close>, \<open>pyb ''abc''\<close> the bytes literal
  \<open>b'abc'\<close>.
\<close>

type_synonym str = "nat list"

type_synonym bytes = "8 word list"

definition py :: "string \<Rightarrow> str" where
  "py s = map of_char s"

definition pyb :: "string \<Rightarrow> bytes" where
  "pyb s = map of_char s"

datatype py_error =
    IndexError
  | AttributeError
  | ValueError
  | UnicodeDecodeError
  | TypeError
  | Http404
  | NotAuthenticated
  | IntegrityError
  | MultipleObjectsReturned

text \<open>\<open>s.split(sep)\<close> for a one-character separator: one token more than separators.\<close>

fun split_sep :: "'a \<Rightarrow> 'a list \<Rightarrow> 'a list list" where
  "split_sep sep [] = [[]]"
| "split_sep sep (x # xs) =
     (if x = sep then [] # split_sep sep xs
      else (case split_sep sep xs of
              [] \<Rightarrow> [[x]]
            | t # ts \<Rightarrow> (x # t) # ts))"

text \<open>\<open>s.split(sep, 1)\<close>: at most one split, at the first separator.\<close>

definition split_once :: "'a \<Rightarrow> 'a list \<Rightarrow> 'a list list" where
  "split_once sep s =
     (if sep \<in> set s
      then [takeWhile (\<lambda>x. x \<noteq> sep) s, tl (dropWhile (\<lambda>x. x \<noteq> sep) s)]
      else [s])"

text \<open>
  The code points for which \<open>str.isspace\<close> holds (CPython's whitespace table), and
  \<open>s.strip()\<close>, which removes them from both ends.
\<close>

definition isspace :: "nat \<Rightarrow> bool" where
  "isspace c \<longleftrightarrow>
     (0x09 \<le> c \<and> c \<le> 0x0D) \<or> (0x1C \<le> c \<and> c \<le> 0x20) \<or> c = 0x85 \<or> c = 0xA0 \<or>
     c = 0x1680 \<or> (0x2000 \<le> c \<and> c \<le> 0x200A) \<or> c = 0x2028 \<or> c = 0x2029 \<or>
     c = 0x202F \<or> c = 0x205F \<or> c = 0x3000"

definition strip :: "str \<Rightarrow> str" where
  "strip s = rev (dropWhile isspace (rev (dropWhile isspace s)))"

text \<open>
  The value \<open>json.loads\<close> returns. A number is kept as its literal: no handler
  computes with one. An object is the list of its items; \<open>dict.get\<close> is \<open>map_of\<close>.
\<close>

datatype json =
    JNull
  | JBool bool
  | JNumber str
  | JString str
  | JArray "json list"
  | JObject "(str \<times> json) list"

text \<open>\<open>data.get(key, default)\<close>: only a dict has the method.\<close>

fun json_get :: "json \<Rightarrow> str \<Rightarrow> json \<Rightarrow> py_error + json" where
  "json_get (JObject items) key dflt =
     Inr (case map_of items key of None \<Rightarrow> dflt | Some v \<Rightarrow> v)"
| "json_get _ key dflt = Inl AttributeError"

section \<open>base.models and messaging.models\<close>

text \<open>
  A user is its \<open>username\<close>, the primary key of \<open>MyUser\<close>; \<open>AnonymousUser\<close> has the
  username \<open>''\<close> and is never authenticated.
\<close>

datatype user = AnonymousUser | MyUser str

fun username :: "user \<Rightarrow> str" where
  "username AnonymousUser = []"
| "username (MyUser name) = name"

fun is_authenticated :: "user \<Rightarrow> bool" where
  "is_authenticated AnonymousUser = False"
| "is_authenticated (MyUser name) = True"

fun is_AnonymousUser :: "user \<Rightarrow> bool" where
  "is_AnonymousUser AnonymousUser = True"
| "is_AnonymousUser (MyUser name) = False"

type_synonym uuid = nat

type_synonym datetime = nat

record conversation =
  conv_id :: uuid
  participant_1 :: str
  participant_2 :: str
  created_at :: datetime
  updated_at :: datetime

record message =
  msg_id :: uuid
  msg_conversation :: uuid
  sender :: str
  content :: str
  msg_created_at :: datetime
  read_at :: "datetime option"
  is_read :: bool

text \<open>
  The database: the \<open>MyUser\<close> rows, \<open>followers d u\<close> the usernames in \<open>u.followers\<close>,
  and the two tables of the messaging app.
\<close>

record db =
  users :: "str set"
  followers :: "str \<Rightarrow> str set"
  conversations :: "conversation list"
  messages :: "message list"

section \<open>messaging.permissions\<close>

definition check_mutual_follow :: "db \<Rightarrow> str \<Rightarrow> str \<Rightarrow> bool" where
  "check_mutual_follow d user1 user2 =
     (if user1 = user2 then False
      else (let user1_follows_user2 = user1 \<in> followers d user2;
                user2_follows_user1 = user2 \<in> followers d user1
            in user1_follows_user2 \<and> user2_follows_user1))"

definition can_message_user :: "db \<Rightarrow> str \<Rightarrow> str \<Rightarrow> bool \<times> string option" where
  "can_message_user d from_user to_user =
     (if from_user = to_user then (False, Some ''Cannot message yourself'')
      else if \<not> check_mutual_follow d from_user to_user
      then (False, Some ''You can only message users who follow you back'')
      else (True, None))"

section \<open>messaging.consumers: ChatConsumer\<close>

text \<open>
  The connection scope: what the middleware and the router leave in it. A field that
  the code reads with \<open>scope.get(key, default)\<close> is optional.
\<close>

record ws_scope =
  headers :: "(bytes \<times> bytes) list option"
  query_string :: "bytes option"
  scope_user :: "user option"
  url_room_name :: str

text \<open>
  The attributes \<open>connect\<close> assigns (\<open>attrs\<close> is \<open>None\<close> before it ran: \<open>hasattr\<close>
  is false), and the consumer instance.
\<close>

record attrs =
  user :: user
  room_name :: str
  room_group_name :: str

record consumer =
  channel_name :: str
  scope :: ws_scope
  attrs :: "attrs option"

text \<open>
  An event is the dict handed to \<open>group_send\<close>; the last field of a chat message is
  its \<open>message_id\<close> entry, \<open>None\<close> when the dict has no such key. A frame is the dict
  that \<open>self.send\<close> serialises to the socket.
\<close>

datatype event =
    Ev_chat_message str str str "str option"
  | Ev_typing_indicator str bool
  | Ev_read_receipt str json
  | Ev_user_joined str
  | Ev_user_left str

datatype error_text =
    Msg string
  | Unknown_message_type json

datatype frame =
    F_chat_message str str str "str option"
  | F_typing str bool
  | F_read_receipt str json
  | F_user_joined str
  | F_user_left str
  | F_error error_text

text \<open>What a method does to the outside, in the order it does it.\<close>

datatype effect =
    Close nat
  | Accept
  | Send frame
  | Group_add str str
  | Group_discard str str
  | Group_send str event

definition consumer_check_mutual_follow :: "db \<Rightarrow> attrs \<Rightarrow> str \<Rightarrow> bool" where
  "consumer_check_mutual_follow d a other_username =
     (if other_username \<in> users d
      then check_mutual_follow d (username (user a)) other_username
      else False)"

definition can_join_room :: "db \<Rightarrow> attrs \<Rightarrow> py_error + bool" where
  "can_join_room d a =
     (let participants = split_sep (of_char CHR ''_'') (room_name a) in
      if username (user a) \<notin> set participants then Inr False
      else (case participants of
              p0 # p1 # rest \<Rightarrow>
                (let other_username = (if p1 = username (user a) then p0 else p1)
                 in Inr (consumer_check_mutual_follow d a other_username))
            | _ \<Rightarrow> Inl IndexError))"

text \<open>The three attributes that \<open>connect\<close> assigns before it checks anything.\<close>

definition connect_attrs :: "consumer \<Rightarrow> attrs" where
  "connect_attrs c =
     \<lparr>user = (case scope_user (scope c) of None \<Rightarrow> AnonymousUser | Some u \<Rightarrow> u),
      room_name = url_room_name (scope c),
      room_group_name = py ''chat_'' @ url_room_name (scope c)\<rparr>"

text \<open>
  The name check of the channel layer (\<open>valid_group_name\<close> of \<open>BaseChannelLayer\<close>).
  \<open>group_add\<close>, \<open>group_send\<close> and \<open>group_discard\<close> make it before anything else, and
  it raises \<open>TypeError\<close> unless the name has fewer than 100 characters and matches the
  layer's pattern: one or more characters, each a letter a-z or A-Z, a decimal digit, a
  hyphen, an underscore or a period, up to the end of the name. The pattern's digit class
  is that of the Unicode decimal digits; their table \<open>isdecimal\<close> is a parameter. The
  pattern's end anchor also matches before one final newline. The channel name of a
  consumer is the one the layer itself gave it, so the layer accepts it.
\<close>

definition group_name_char :: "(nat \<Rightarrow> bool) \<Rightarrow> nat \<Rightarrow> bool" where
  "group_name_char isdecimal c \<longleftrightarrow>
     (0x61 \<le> c \<and> c \<le> 0x7A) \<or> (0x41 \<le> c \<and> c \<le> 0x5A) \<or> isdecimal c \<or>
     c = 0x2D \<or> c = 0x5F \<or> c = 0x2E"

definition group_name_regex_match :: "(nat \<Rightarrow> bool) \<Rightarrow> str \<Rightarrow> bool" where
  "group_name_regex_match isdecimal name \<longleftrightarrow>
     name \<noteq> [] \<and>
     (list_all (group_name_char isdecimal) name \<or>
      (last name = 0x0A \<and> butlast name \<noteq> [] \<and>
       list_all (group_name_char isdecimal) (butlast name)))"

definition valid_group_name :: "(nat \<Rightarrow> bool) \<Rightarrow> str \<Rightarrow> bool" where
  "valid_group_name isdecimal name \<longleftrightarrow>
     length name < 100 \<and> group_name_regex_match isdecimal name"

text \<open>
  \<open>connect\<close>. When the user may join, \<open>group_add\<close> comes first: for a group name
  that the layer refuses it raises, and the attempt is neither accepted nor closed.
\<close>

definition connect ::
  "(nat \<Rightarrow> bool) \<Rightarrow> db \<Rightarrow> consumer \<Rightarrow> py_error + (consumer \<times> effect list)" where
  "connect isdecimal d c =
     (let a = connect_attrs c;
          c' = c\<lparr>attrs := Some a\<rparr>
      in if is_AnonymousUser (user a) \<or> \<not> is_authenticated (user a)
         then Inr (c', [Close 4001])
         else (case can_join_room d a of
                 Inl e \<Rightarrow> Inl e
               | Inr can_join \<Rightarrow>
                   if \<not> can_join then Inr (c', [Close 4003])
                   else if \<not> valid_group_name isdecimal (room_group_name a)
                   then Inl TypeError
                   else Inr (c', [Group_add (room_group_name a) (channel_name c),
                                  Accept,
                                  Group_send (room_group_name a)
                                    (Ev_user_joined (username (user a)))])))"

text \<open>
  \<open>disconnect\<close>. Its first call is \<open>group_send\<close>: for a group name that the layer
  refuses it raises, nothing is sent and \<open>group_discard\<close> is not reached.
\<close>

definition disconnect :: "(nat \<Rightarrow> bool) \<Rightarrow> consumer \<Rightarrow> nat \<Rightarrow> py_error + effect list" where
  "disconnect isdecimal c close_code =
     (case attrs c of
        None \<Rightarrow> Inr []
      | Some a \<Rightarrow>
          if \<not> valid_group_name isdecimal (room_group_name a) then Inl TypeError
          else Inr [Group_send (room_group_name a) (Ev_user_left (username (user a))),
                    Group_discard (room_group_name a) (channel_name c)])"

definition send_error :: "error_text \<Rightarrow> effect list" where
  "send_error m = [Send (F_error m)]"

text \<open>
  The handlers of inbound frames. They take the database and return it: the consumer
  saves nothing (its save call is commented out), so the database comes back as it was.
  \<open>timestamp\<close> is what \<open>_get_timestamp\<close> reads from the clock. A frame arrives
  only on an accepted connection, whose group name \<open>group_add\<close> has accepted in
  \<open>connect\<close>, so the layer accepts it in the \<open>group_send\<close> of these handlers too.
\<close>

definition handle_chat_message ::
  "db \<Rightarrow> consumer \<Rightarrow> str \<Rightarrow> json \<Rightarrow> py_error + (db \<times> effect list)" where
  "handle_chat_message d c timestamp data =
     (case json_get data (py ''content'') (JString []) of
        Inl e \<Rightarrow> Inl e
      | Inr (JString raw) \<Rightarrow>
          (let content = strip raw in
           if content = [] then
             Inr (d, send_error (Msg ''Message content cannot be empty''))
           else if length content > 2000 then
             Inr (d, send_error (Msg ''Message too long (max 2000 characters)''))
           else (case attrs c of
                   None \<Rightarrow> Inl AttributeError
                 | Some a \<Rightarrow>
                     Inr (d, [Group_send (room_group_name a)
                                (Ev_chat_message content (username (user a)) timestamp None)])))
      | Inr _ \<Rightarrow> Inl AttributeError)"

definition handle_typing_start :: "db \<Rightarrow> consumer \<Rightarrow> py_error + (db \<times> effect list)" where
  "handle_typing_start d c =
     (case attrs c of
        None \<Rightarrow> Inl AttributeError
      | Some a \<Rightarrow>
          Inr (d, [Group_send (room_group_name a)
                     (Ev_typing_indicator (username (user a)) True)]))"

definition handle_typing_stop :: "db \<Rightarrow> consumer \<Rightarrow> py_error + (db \<times> effect list)" where
  "handle_typing_stop d c =
     (case attrs c of
        None \<Rightarrow> Inl AttributeError
      | Some a \<Rightarrow>
          Inr (d, [Group_send (room_group_name a)
                     (Ev_typing_indicator (username (user a)) False)]))"

definition handle_mark_read ::
  "db \<Rightarrow> consumer \<Rightarrow> json \<Rightarrow> py_error + (db \<times> effect list)" where
  "handle_mark_read d c data =
     (case json_get data (py ''message_ids'') (JArray []) of
        Inl e \<Rightarrow> Inl e
      | Inr message_ids \<Rightarrow>
          (case attrs c of
             None \<Rightarrow> Inl AttributeError
           | Some a \<Rightarrow>
               Inr (d, [Group_send (room_group_name a)
                          (Ev_read_receipt (username (user a)) message_ids)])))"

text \<open>
  \<open>receive\<close>: its argument is the outcome of \<open>json.loads(text_data)\<close>, \<open>None\<close> for a
  \<open>JSONDecodeError\<close>.
\<close>

definition receive ::
  "db \<Rightarrow> consumer \<Rightarrow> str \<Rightarrow> json option \<Rightarrow> py_error + (db \<times> effect list)" where
  "receive d c timestamp loaded =
     (case loaded of
        None \<Rightarrow> Inr (d, send_error (Msg ''Invalid JSON format''))
      | Some data \<Rightarrow>
          (case json_get data (py ''type'') (JString (py ''chat_message'')) of
             Inl e \<Rightarrow> Inl e
           | Inr message_type \<Rightarrow>
               if message_type = JString (py ''chat_message'') then
                 handle_chat_message d c timestamp data
               else if message_type = JString (py ''typing_start'') then
                 handle_typing_start d c
               else if message_type = JString (py ''typing_stop'') then
                 handle_typing_stop d c
               else if message_type = JString (py ''mark_read'') then
                 handle_mark_read d c data
               else Inr (d, send_error (Unknown_message_type message_type))))"

subsection \<open>Event handlers\<close>

text \<open>
  The methods that the channel layer calls on a member of the group, one per event
  type; \<open>dispatch\<close> picks the method named by the event's type.
\<close>

definition chat_message :: "consumer \<Rightarrow> str \<Rightarrow> str \<Rightarrow> str \<Rightarrow> str option \<Rightarrow> py_error + effect list" where
  "chat_message c ev_content ev_sender ev_timestamp ev_message_id =
     Inr [Send (F_chat_message ev_content ev_sender ev_timestamp ev_message_id)]"

definition typing_indicator :: "consumer \<Rightarrow> str \<Rightarrow> bool \<Rightarrow> py_error + effect list" where
  "typing_indicator c ev_username ev_is_typing =
     (case attrs c of
        None \<Rightarrow> Inl AttributeError
      | Some a \<Rightarrow>
          if ev_username \<noteq> username (user a)
          then Inr [Send (F_typing ev_username ev_is_typing)]
          else Inr [])"

definition read_receipt :: "consumer \<Rightarrow> str \<Rightarrow> json \<Rightarrow> py_error + effect list" where
  "read_receipt c ev_reader ev_message_ids =
     (case attrs c of
        None \<Rightarrow> Inl AttributeError
      | Some a \<Rightarrow>
          if ev_reader \<noteq> username (user a)
          then Inr [Send (F_read_receipt ev_reader ev_message_ids)]
          else Inr [])"

definition user_joined :: "consumer \<Rightarrow> str \<Rightarrow> py_error + effect list" where
  "user_joined c ev_username =
     (case attrs c of
        None \<Rightarrow> Inl AttributeError
      | Some a \<Rightarrow>
          if ev_username \<noteq> username (user a)
          then Inr [Send (F_user_joined ev_username)]
          else Inr [])"

definition user_left :: "consumer \<Rightarrow> str \<Rightarrow> py_error + effect list" where
  "user_left c ev_username =
     (case attrs c of
        None \<Rightarrow> Inl AttributeError
      | Some a \<Rightarrow>
          if ev_username \<noteq> username (user a)
          then Inr [Send (F_user_left ev_username)]
          else Inr [])"

fun dispatch :: "consumer \<Rightarrow> event \<Rightarrow> py_error + effect list" where
  "dispatch c (Ev_chat_message ev_content ev_sender ev_timestamp ev_message_id) =
     chat_message c ev_content ev_sender ev_timestamp ev_message_id"
| "dispatch c (Ev_typing_indicator ev_username ev_is_typing) =
     typing_indicator c ev_username ev_is_typing"
| "dispatch c (Ev_read_receipt ev_reader ev_message_ids) =
     read_receipt c ev_reader ev_message_ids"
| "dispatch c (Ev_user_joined ev_username) = user_joined c ev_username"
| "dispatch c (Ev_user_left ev_username) = user_left c ev_username"

subsection \<open>The channel layer\<close>

text \<open>
  The channel layer keeps, for every group name, the set of channel names in the group.
  \<open>group_add\<close> and \<open>group_discard\<close> change that set (discarding a channel that is not
  in the group changes nothing); \<open>group_send\<close> hands the event to the consumer of
  every channel in the group.
\<close>

type_synonym groups = "str \<Rightarrow> str set"

fun layer_step :: "groups \<Rightarrow> effect \<Rightarrow> groups" where
  "layer_step g (Group_add grp ch) = g(grp := insert ch (g grp))"
| "layer_step g (Group_discard grp ch) = g(grp := g grp - {ch})"
| "layer_step g _ = g"

definition layer_run :: "groups \<Rightarrow> effect list \<Rightarrow> groups" where
  "layer_run g effs = foldl layer_step g effs"

text \<open>The frames an effect list writes to a socket: those of its \<open>Send\<close>s.\<close>

fun sent_frames :: "effect list \<Rightarrow> frame list" where
  "sent_frames [] = []"
| "sent_frames (Send f # effs) = f # sent_frames effs"
| "sent_frames (_ # effs) = sent_frames effs"

text \<open>
  \<open>delivered live g self eff ch\<close>: the frames that reach the socket of channel \<open>ch\<close>
  when the consumer of channel \<open>self\<close> performs \<open>eff\<close>, with \<open>live\<close> the consumers by
  channel name and \<open>g\<close> the groups at that moment.
\<close>

fun delivered :: "(str \<Rightarrow> consumer option) \<Rightarrow> groups \<Rightarrow> str \<Rightarrow> effect \<Rightarrow> str \<Rightarrow> frame list" where
  "delivered live g self (Send f) ch = (if ch = self then [f] else [])"
| "delivered live g self (Group_send grp ev) ch =
     (if ch \<in> g grp
      then (case live ch of
              None \<Rightarrow> []
            | Some c \<Rightarrow> (case dispatch c ev of Inl e \<Rightarrow> [] | Inr effs \<Rightarrow> sent_frames effs))
      else [])"
| "delivered live g self _ ch = []"


text \<open>
  \<open>deliveries live g self effs ch\<close>: the frames that reach the socket of \<open>ch\<close> while
  the consumer of channel \<open>self\<close> performs \<open>effs\<close> in order, starting from groups \<open>g\<close>.
\<close>

fun deliveries :: "(str \<Rightarrow> consumer option) \<Rightarrow> groups \<Rightarrow> str \<Rightarrow> effect list \<Rightarrow> str \<Rightarrow> frame list" where
  "deliveries live g self [] ch = []"
| "deliveries live g self (eff # effs) ch =
     delivered live g self eff ch @ deliveries live (layer_step g eff) self effs ch"

section \<open>messaging.models: ConversationManager\<close>

text \<open>
  The \<open>unique_conversation\<close> constraint of \<open>Conversation.Meta\<close>: no two rows with the
  same (participant_1, participant_2); and the primary key.
\<close>

definition participants_of :: "conversation \<Rightarrow> str \<times> str" where
  "participants_of c = (participant_1 c, participant_2 c)"

definition unique_conversation :: "conversation list \<Rightarrow> bool" where
  "unique_conversation cs \<longleftrightarrow> distinct (map participants_of cs)"

definition unique_pk :: "conversation list \<Rightarrow> bool" where
  "unique_pk cs \<longleftrightarrow> distinct (map conv_id cs)"

text \<open>
  Django's \<open>objects.get(participant_1=p1, participant_2=p2)\<close> (\<open>None\<close> for
  \<open>DoesNotExist\<close>) and \<open>objects.create\<close>, which the database refuses with
  \<open>IntegrityError\<close> when the row would break the primary key or the
  \<open>unique_conversation\<close> constraint. \<open>new_id\<close> is the \<open>uuid4\<close> drawn for the new
  row; \<open>now_created\<close> and \<open>now_updated\<close> are the two readings of the clock, one for
  the \<open>auto_now_add\<close> field and one for the \<open>auto_now\<close> field.
\<close>

definition conversation_get :: "conversation list \<Rightarrow> str \<Rightarrow> str \<Rightarrow> py_error + conversation option" where
  "conversation_get cs p1 p2 =
     (case filter (\<lambda>c. participant_1 c = p1 \<and> participant_2 c = p2) cs of
        [] \<Rightarrow> Inr None
      | [c] \<Rightarrow> Inr (Some c)
      | _ \<Rightarrow> Inl MultipleObjectsReturned)"

definition conversation_create ::
  "conversation list \<Rightarrow> uuid \<Rightarrow> datetime \<Rightarrow> datetime \<Rightarrow> str \<Rightarrow> str \<Rightarrow>
     py_error + (conversation \<times> conversation list)" where
  "conversation_create cs new_id now_created now_updated p1 p2 =
     (let c = \<lparr>conv_id = new_id, participant_1 = p1, participant_2 = p2,
                created_at = now_created, updated_at = now_updated\<rparr>
      in if new_id \<in> set (map conv_id cs) \<or> (p1, p2) \<in> set (map participants_of cs)
         then Inl IntegrityError
         else Inr (c, cs @ [c]))"

text \<open>
  Django's \<open>objects.get_or_create\<close>: \<open>get\<close>; on \<open>DoesNotExist\<close>, \<open>create\<close>; and
  when the database refuses the \<open>create\<close>, \<open>get\<close> once more, raising the
  \<open>IntegrityError\<close> again if there still is no row. \<open>create_or_get\<close> is the part
  after the first \<open>get\<close>; it runs on the table as it is then, which for a creator that
  another one has overtaken already holds the row.
\<close>

definition create_or_get ::
  "conversation list \<Rightarrow> uuid \<Rightarrow> datetime \<Rightarrow> datetime \<Rightarrow> str \<Rightarrow> str \<Rightarrow>
     py_error + (conversation \<times> bool \<times> conversation list)" where
  "create_or_get cs new_id now_created now_updated p1 p2 =
     (case conversation_create cs new_id now_created now_updated p1 p2 of
        Inr (c, cs') \<Rightarrow> Inr (c, True, cs')
      | Inl e \<Rightarrow>
          (case conversation_get cs p1 p2 of
             Inl e' \<Rightarrow> Inl e'
           | Inr (Some c) \<Rightarrow> Inr (c, False, cs)
           | Inr None \<Rightarrow> Inl e))"

definition get_or_create ::
  "conversation list \<Rightarrow> uuid \<Rightarrow> datetime \<Rightarrow> datetime \<Rightarrow> str \<Rightarrow> str \<Rightarrow>
     py_error + (conversation \<times> bool \<times> conversation list)" where
  "get_or_create cs new_id now_created now_updated p1 p2 =
     (case conversation_get cs p1 p2 of
        Inl e \<Rightarrow> Inl e
      | Inr (Some c) \<Rightarrow> Inr (c, False, cs)
      | Inr None \<Rightarrow> create_or_get cs new_id now_created now_updated p1 p2)"

definition get_or_create_between ::
  "db \<Rightarrow> uuid \<Rightarrow> datetime \<Rightarrow> datetime \<Rightarrow> str \<Rightarrow> str \<Rightarrow>
     py_error + (conversation \<times> bool \<times> db)" where
  "get_or_create_between d new_id now_created now_updated user1 user2 =
     (let (p1, p2) = (if user1 < user2 then (user1, user2) else (user2, user1)) in
      case get_or_create (conversations d) new_id now_created now_updated p1 p2 of
        Inl e \<Rightarrow> Inl e
      | Inr (c, created, cs') \<Rightarrow> Inr (c, created, d\<lparr>conversations := cs'\<rparr>))"

definition get_room_name :: "conversation \<Rightarrow> str" where
  "get_room_name c = participant_1 c @ py ''_'' @ participant_2 c"

text \<open>The participants are stored in alphabetical order of their usernames.\<close>

definition canonical_order :: "conversation list \<Rightarrow> bool" where
  "canonical_order cs \<longleftrightarrow> list_all (\<lambda>c. participant_1 c < participant_2 c) cs"

section \<open>messaging.views: MarkMessagesReadView\<close>

text \<open>
  The rows that \<open>conversation.messages.filter(is_read=False).exclude(sender=reader)\<close>
  selects, and \<open>update(is_read=True, read_at=now)\<close> on them, which returns the
  number of rows it matched.
\<close>

definition unread_from_others :: "uuid \<Rightarrow> str \<Rightarrow> message \<Rightarrow> bool" where
  "unread_from_others cid reader m \<longleftrightarrow>
     msg_conversation m = cid \<and> \<not> is_read m \<and> sender m \<noteq> reader"

definition update_read :: "datetime \<Rightarrow> uuid \<Rightarrow> str \<Rightarrow> message list \<Rightarrow> message list \<times> nat" where
  "update_read now cid reader ms =
     (map (\<lambda>m. if unread_from_others cid reader m
                then m\<lparr>is_read := True, read_at := Some now\<rparr> else m) ms,
      length (filter (unread_from_others cid reader) ms))"

text \<open>
  \<open>MarkMessagesReadView.patch\<close>: \<open>IsAuthenticated\<close> refuses an anonymous request,
  \<open>get_object_or_404\<close> one for a conversation the user is not part of; the result is
  the new database and the \<open>marked_read\<close> of the response.
\<close>

definition mark_messages_read_patch :: "db \<Rightarrow> user \<Rightarrow> uuid \<Rightarrow> datetime \<Rightarrow> py_error + (db \<times> nat)" where
  "mark_messages_read_patch d request_user conversation_id now =
     (if \<not> is_authenticated request_user then Inl NotAuthenticated
      else (case filter (\<lambda>c. (participant_1 c = username request_user \<or>
                              participant_2 c = username request_user) \<and>
                             conv_id c = conversation_id) (conversations d) of
              [] \<Rightarrow> Inl Http404
            | [conversation] \<Rightarrow>
                (let (ms, updated_count) =
                       update_read now (conv_id conversation) (username request_user) (messages d)
                 in Inr (d\<lparr>messages := ms\<rparr>, updated_count))
            | _ \<Rightarrow> Inl MultipleObjectsReturned))"

section \<open>messaging.middleware: JWTAuthMiddleware\<close>

text \<open>
  \<open>bytes.decode('utf-8')\<close>: \<open>None\<close> for a \<open>UnicodeDecodeError\<close>. The decoder is the
  strict one: no overlong form, no surrogate, nothing above U+10FFFF.
\<close>

definition is_cont :: "8 word \<Rightarrow> bool" where
  "is_cont b \<longleftrightarrow> 0x80 \<le> b \<and> b \<le> 0xBF"

definition second_ok :: "8 word \<Rightarrow> 8 word \<Rightarrow> bool" where
  "second_ok b0 b1 \<longleftrightarrow>
     (if b0 = 0xE0 then 0xA0 \<le> b1 \<and> b1 \<le> 0xBF
      else if b0 = 0xED then 0x80 \<le> b1 \<and> b1 \<le> 0x9F
      else if b0 = 0xF0 then 0x90 \<le> b1 \<and> b1 \<le> 0xBF
      else if b0 = 0xF4 then 0x80 \<le> b1 \<and> b1 \<le> 0x8F
      else is_cont b1)"

fun utf8_decode :: "bytes \<Rightarrow> str option" where
  "utf8_decode [] = Some []"
| "utf8_decode (b0 # bs) =
     (if b0 < 0x80 then map_option (Cons (unat b0)) (utf8_decode bs)
      else if 0xC2 \<le> b0 \<and> b0 \<le> 0xDF then
        (case bs of
           b1 # r \<Rightarrow>
             if is_cont b1
             then map_option (Cons ((unat b0 - 0xC0) * 64 + (unat b1 - 0x80))) (utf8_decode r)
             else None
         | _ \<Rightarrow> None)
      else if 0xE0 \<le> b0 \<and> b0 \<le> 0xEF then
        (case bs of
           b1 # b2 # r \<Rightarrow>
             if second_ok b0 b1 \<and> is_cont b2
             then map_option
                    (Cons ((unat b0 - 0xE0) * 4096 + (unat b1 - 0x80) * 64 + (unat b2 - 0x80)))
                    (utf8_decode r)
             else None
         | _ \<Rightarrow> None)
      else if 0xF0 \<le> b0 \<and> b0 \<le> 0xF4 then
        (case bs of
           b1 # b2 # b3 # r \<Rightarrow>
             if second_ok b0 b1 \<and> is_cont b2 \<and> is_cont b3
             then map_option
                    (Cons ((unat b0 - 0xF0) * 262144 + (unat b1 - 0x80) * 4096 +
                           (unat b2 - 0x80) * 64 + (unat b3 - 0x80)))
                    (utf8_decode r)
             else None
         | _ \<Rightarrow> None)
      else None)"

text \<open>
  The token verifier of \<open>rest_framework_simplejwt\<close> is a parameter: \<open>AccessToken t\<close>
  is \<open>None\<close> when the constructor raises (\<open>InvalidToken\<close>, \<open>TokenError\<close>), else
  the \<open>user_id\<close> claim of the token (\<open>None\<close> when the token has none).
\<close>

type_synonym token_verifier = "str \<Rightarrow> str option option"

definition get_user_from_token :: "token_verifier \<Rightarrow> db \<Rightarrow> str \<Rightarrow> user" where
  "get_user_from_token AccessToken d token_key =
     (case AccessToken token_key of
        None \<Rightarrow> AnonymousUser
      | Some None \<Rightarrow> AnonymousUser
      | Some (Some user_id) \<Rightarrow>
          if user_id \<noteq> [] then
            (if user_id \<in> users d then MyUser user_id else AnonymousUser)
          else AnonymousUser)"

text \<open>The inner loop of \<open>_parse_cookies\<close>, over the items of one cookie header.\<close>

fun parse_cookie_items :: "str list \<Rightarrow> (str \<Rightarrow> str option) \<Rightarrow> (str \<Rightarrow> str option)" where
  "parse_cookie_items [] cookies = cookies"
| "parse_cookie_items (item # items) cookies =
     (let item' = strip item in
      if of_char CHR ''='' \<in> set item' then
        (case split_once (of_char CHR ''='') item' of
           [key, val] \<Rightarrow> parse_cookie_items items (cookies(strip key \<mapsto> strip val))
         | _ \<Rightarrow> parse_cookie_items items cookies)
      else parse_cookie_items items cookies)"

fun parse_cookies_from :: "(bytes \<times> bytes) list \<Rightarrow> (str \<Rightarrow> str option) \<Rightarrow> py_error + (str \<Rightarrow> str option)" where
  "parse_cookies_from [] cookies = Inr cookies"
| "parse_cookies_from ((header_name, header_value) # hs) cookies =
     (if header_name = pyb ''cookie'' then
        (case utf8_decode header_value of
           None \<Rightarrow> Inl UnicodeDecodeError
         | Some cookie_string \<Rightarrow>
             parse_cookies_from hs
               (parse_cookie_items (split_sep (of_char CHR '';'') cookie_string) cookies))
      else parse_cookies_from hs cookies)"

definition parse_cookies :: "(bytes \<times> bytes) list \<Rightarrow> py_error + (str \<Rightarrow> str option)" where
  "parse_cookies hs = parse_cookies_from hs Map.empty"

text \<open>
  \<open>dict(pairs)\<close>: every element must have exactly two items, else \<open>ValueError\<close>; a
  later key replaces an earlier one.
\<close>

fun dict_of :: "str list list \<Rightarrow> (str \<Rightarrow> str option) \<Rightarrow> py_error + (str \<Rightarrow> str option)" where
  "dict_of [] params = Inr params"
| "dict_of ([key, val] # rest) params = dict_of rest (params(key \<mapsto> val))"
| "dict_of (_ # rest) params = Inl ValueError"

definition get_token_from_query :: "ws_scope \<Rightarrow> py_error + str option" where
  "get_token_from_query sc =
     (case utf8_decode (case query_string sc of None \<Rightarrow> [] | Some q \<Rightarrow> q) of
        None \<Rightarrow> Inl UnicodeDecodeError
      | Some qs \<Rightarrow>
          (case dict_of (map (split_sep (of_char CHR ''=''))
                           (filter (\<lambda>item. of_char CHR ''='' \<in> set item)
                              (split_sep (of_char CHR ''&'') qs))) Map.empty of
             Inl e \<Rightarrow> Inl e
           | Inr params \<Rightarrow> Inr (params (py ''token''))))"

text \<open>Python's truth value of \<open>token\<close>: \<open>None\<close> and \<open>''\<close> are false.\<close>

fun truthy :: "str option \<Rightarrow> bool" where
  "truthy None = False"
| "truthy (Some s) = (s \<noteq> [])"

text \<open>
  \<open>JWTAuthMiddleware.__call__\<close>, up to the call of the inner application: the result
  is the scope that the inner application gets.
\<close>

definition jwt_auth_middleware_call :: "token_verifier \<Rightarrow> db \<Rightarrow> ws_scope \<Rightarrow> py_error + ws_scope" where
  "jwt_auth_middleware_call AccessToken d sc =
     (let sc0 = sc\<lparr>scope_user := Some AnonymousUser\<rparr> in
      case parse_cookies (case headers sc0 of None \<Rightarrow> [] | Some hs \<Rightarrow> hs) of
        Inl e \<Rightarrow> Inl e
      | Inr cookies \<Rightarrow>
          (case (if \<not> truthy (cookies (py ''access_token''))
                 then get_token_from_query sc0
                 else Inr (cookies (py ''access_token''))) of
             Inl e \<Rightarrow> Inl e
           | Inr token \<Rightarrow>
               (case token of
                  Some token_key \<Rightarrow>
                    if token_key \<noteq> []
                    then Inr (sc0\<lparr>scope_user := Some (get_user_from_token AccessToken d token_key)\<rparr>)
                    else Inr sc0
                | None \<Rightarrow> Inr sc0)))"

section \<open>Scenarios\<close>

text \<open>
  A consumer as the router creates it, before \<open>connect\<close>; a consumer that has joined
  its room; a database in which alice and bob follow each other and nobody else
  follows anybody; and one in which b and c follow each other.
\<close>

definition ws_consumer :: "str \<Rightarrow> user option \<Rightarrow> str \<Rightarrow> consumer" where
  "ws_consumer ch u room =
     \<lparr>channel_name = ch,
      scope = \<lparr>headers = None, query_string = None, scope_user = u, url_room_name = room\<rparr>,
      attrs = None\<rparr>"

definition joined_consumer :: "str \<Rightarrow> str \<Rightarrow> str \<Rightarrow> consumer" where
  "joined_consumer ch name room =
     (ws_consumer ch (Some (MyUser name)) room)
       \<lparr>attrs := Some \<lparr>user = MyUser name, room_name = room,
                       room_group_name = py ''chat_'' @ room\<rparr>\<rparr>"

definition social_db :: db where
  "social_db =
     \<lparr>users = {py ''alice'', py ''bob'', py ''carol'', py ''dave'', py ''mallory''},
      followers = (\<lambda>u. if u = py ''alice'' then {py ''bob''}
                        else if u = py ''bob'' then {py ''alice''} else {}),
      conversations = [],
      messages = []\<rparr>"

definition abc_db :: db where
  "abc_db =
     \<lparr>users = {py ''a'', py ''b'', py ''c''},
      followers = (\<lambda>u. if u = py ''b'' then {py ''c''}
                        else if u = py ''c'' then {py ''b''} else {}),
      conversations = [],
      messages = []\<rparr>"

text \<open>
  The decimal digits of ASCII, for the digit table: no name in the scenarios has
  another digit. And a room name of 95 letters, whose group name has 100 characters.
\<close>

definition ascii_digit :: "nat \<Rightarrow> bool" where
  "ascii_digit c \<longleftrightarrow> 0x30 \<le> c \<and> c \<le> 0x39"

definition long_room :: str where
  "long_room = replicate 95 (of_char CHR ''x'')"

text \<open>
  The frame \<open>{"type": "chat_message", "content": text}\<close>, and the room of alice and
  bob with one connection each.
\<close>

definition chat_frame :: "str \<Rightarrow> json" where
  "chat_frame text =
     JObject [(py ''type'', JString (py ''chat_message'')), (py ''content'', JString text)]"

definition alice_bob_live :: "str \<Rightarrow> consumer option" where
  "alice_bob_live ch =
     (if ch = py ''ch_a'' then Some (joined_consumer (py ''ch_a'') (py ''alice'') (py ''alice_bob''))
      else if ch = py ''ch_b'' then Some (joined_consumer (py ''ch_b'') (py ''bob'') (py ''alice_bob''))
      else None)"

definition alice_bob_groups :: "str \<Rightarrow> str set" where
  "alice_bob_groups grp = (if grp = py ''chat_alice_bob'' then {py ''ch_a'', py ''ch_b''} else {})"

text \<open>
  A database with no conversation yet, the conversation of alice and bob, and a
  database with that conversation and three unread messages, before and after bob
  marks it read at time 200.
\<close>

definition empty_db :: db where
  "empty_db = \<lparr>users = {py ''alice'', py ''bob''}, followers = (\<lambda>u. {}),
               conversations = [], messages = []\<rparr>"

definition alice_bob_conversation :: conversation where
  "alice_bob_conversation =
     \<lparr>conv_id = 7, participant_1 = py ''alice'', participant_2 = py ''bob'',
      created_at = 100, updated_at = 100\<rparr>"

definition chat_db :: db where
  "chat_db =
     \<lparr>users = {py ''alice'', py ''bob''},
      followers = (\<lambda>u. if u = py ''alice'' then {py ''bob''}
                        else if u = py ''bob'' then {py ''alice''} else {}),
      conversations = [alice_bob_conversation],
      messages =
        [\<lparr>msg_id = 1, msg_conversation = 7, sender = py ''alice'', content = py ''hi'',
          msg_created_at = 101, read_at = None, is_read = False\<rparr>,
         \<lparr>msg_id = 2, msg_conversation = 7, sender = py ''bob'', content = py ''yo'',
          msg_created_at = 102, read_at = None, is_read = False\<rparr>,
         \<lparr>msg_id = 3, msg_conversation = 7, sender = py ''alice'', content = py ''ok'',
          msg_created_at = 103, read_at = None, is_read = False\<rparr>]\<rparr>"

definition chat_db_read :: db where
  "chat_db_read =
     chat_db\<lparr>messages :=
        [\<lparr>msg_id = 1, msg_conversation = 7, sender = py ''alice'', content = py ''hi'',
          msg_created_at = 101, read_at = Some 200, is_read = True\<rparr>,
         \<lparr>msg_id = 2, msg_conversation = 7, sender = py ''bob'', content = py ''yo'',
          msg_created_at = 102, read_at = None, is_read = False\<rparr>,
         \<lparr>msg_id = 3, msg_conversation = 7, sender = py ''alice'', content = py ''ok'',
          msg_created_at = 103, read_at = Some 200, is_read = True\<rparr>]\<rparr>"

text \<open>
  A handshake with the given headers and query string, and a token verifier that
  accepts three tokens: one for alice, one for bob, one for a user that does not exist.
\<close>

definition handshake :: "(bytes \<times> bytes) list \<Rightarrow> bytes \<Rightarrow> ws_scope" where
  "handshake hs q =
     \<lparr>headers = Some hs, query_string = Some q, scope_user = None,
      url_room_name = py ''alice_bob''\<rparr>"

definition demo_verifier :: token_verifier where
  "demo_verifier t =
     (if t = py ''tokA'' then Some (Some (py ''alice''))
      else if t = py ''tokB'' then Some (Some (py ''bob''))
      else if t = py ''tokZ'' then Some (Some (py ''zed''))
      else None)"

section \<open>Properties of ChatConsumer.connect\<close>

text \<open>The four ways \<open>connect\<close> can end.\<close>

lemma connect_unauthenticated:
  assumes "\<not> is_authenticated (user (connect_attrs c))"
  shows "connect isdecimal d c = Inr (c\<lparr>attrs := Some (connect_attrs c)\<rparr>, [Close 4001])"
  using assms by (simp add: connect_def Let_def)

lemma is_AnonymousUser_iff: "is_AnonymousUser u \<longleftrightarrow> \<not> is_authenticated u"
  by (cases u) simp_all

lemma connect_refused:
  assumes "is_authenticated (user (connect_attrs c))"
    and "can_join_room d (connect_attrs c) = Inr False"
  shows "connect isdecimal d c = Inr (c\<lparr>attrs := Some (connect_attrs c)\<rparr>, [Close 4003])"
  using assms by (simp add: connect_def Let_def is_AnonymousUser_iff)

lemma connect_joined:
  assumes "is_authenticated (user (connect_attrs c))"
    and "can_join_room d (connect_attrs c) = Inr True"
    and "valid_group_name isdecimal (room_group_name (connect_attrs c))"
  shows "connect isdecimal d c =
    Inr (c\<lparr>attrs := Some (connect_attrs c)\<rparr>,
         [Group_add (room_group_name (connect_attrs c)) (channel_name c), Accept,
          Group_send (room_group_name (connect_attrs c))
            (Ev_user_joined (username (user (connect_attrs c))))])"
  using assms by (simp add: connect_def Let_def is_AnonymousUser_iff)

lemma connect_group_name_refused:
  assumes "is_authenticated (user (connect_attrs c))"
    and "can_join_room d (connect_attrs c) = Inr True"
    and "\<not> valid_group_name isdecimal (room_group_name (connect_attrs c))"
  shows "connect isdecimal d c = Inl TypeError"
  using assms by (simp add: connect_def Let_def is_AnonymousUser_iff)

lemma connect_crash:
  assumes "is_authenticated (user (connect_attrs c))"
    and "can_join_room d (connect_attrs c) = Inl e"
  shows "connect isdecimal d c = Inl e"
  using assms by (simp add: connect_def Let_def is_AnonymousUser_iff)

lemma connect_Inr_cases:
  assumes "connect isdecimal d c = Inr (c', effs)"
  shows "c' = c\<lparr>attrs := Some (connect_attrs c)\<rparr> \<and>
    ((\<not> is_authenticated (user (connect_attrs c)) \<and> effs = [Close 4001]) \<or>
     (is_authenticated (user (connect_attrs c)) \<and> can_join_room d (connect_attrs c) = Inr False
        \<and> effs = [Close 4003]) \<or>
     (is_authenticated (user (connect_attrs c)) \<and> can_join_room d (connect_attrs c) = Inr True
        \<and> valid_group_name isdecimal (room_group_name (connect_attrs c))
        \<and> effs = [Group_add (room_group_name (connect_attrs c)) (channel_name c), Accept,
          Group_send (room_group_name (connect_attrs c))
            (Ev_user_joined (username (user (connect_attrs c))))]))"
proof (cases "is_authenticated (user (connect_attrs c))")
  case False
  with assms connect_unauthenticated[OF False, of isdecimal d] show ?thesis by simp
next
  case auth: True
  show ?thesis
  proof (cases "can_join_room d (connect_attrs c)")
    case (Inl e)
    with assms connect_crash[OF auth Inl, of isdecimal] show ?thesis by simp
  next
    case (Inr b)
    show ?thesis
    proof (cases b)
      case True
      with Inr have can: "can_join_room d (connect_attrs c) = Inr True" by simp
      show ?thesis
      proof (cases "valid_group_name isdecimal (room_group_name (connect_attrs c))")
        case True
        from connect_joined[OF auth can True] assms can auth True show ?thesis by simp
      next
        case False
        from connect_group_name_refused[OF auth can False] assms show ?thesis by simp
      qed
    next
      case False
      with Inr have "can_join_room d (connect_attrs c) = Inr False" by simp
      from connect_refused[OF auth this, of isdecimal] assms this auth
      show ?thesis by simp
    qed
  qed
qed

lemma can_join_room_not_participant:
  assumes "username (user a) \<notin> set (split_sep (of_char CHR ''_'') (room_name a))"
  shows "can_join_room d a = Inr False"
  using assms by (simp add: can_join_room_def Let_def)

lemma can_join_room_participant:
  assumes "split_sep (of_char CHR ''_'') (room_name a) = p0 # p1 # rest"
    and "username (user a) \<in> set (p0 # p1 # rest)"
  shows "can_join_room d a =
    Inr (consumer_check_mutual_follow d a (if p1 = username (user a) then p0 else p1))"
  using assms by (simp add: can_join_room_def Let_def)

lemma can_join_room_one_token:
  assumes "split_sep (of_char CHR ''_'') (room_name a) = [p0]"
    and "username (user a) = p0"
  shows "can_join_room d a = Inl IndexError"
  using assms by (simp add: can_join_room_def Let_def)

lemma can_join_room_two_tokens:
  assumes "split_sep (of_char CHR ''_'') (room_name a) = [t0, t1]"
  shows "can_join_room d a =
    Inr (username (user a) \<in> {t0, t1} \<and>
         (if t1 = username (user a) then t0 else t1) \<in> users d \<and>
         check_mutual_follow d (username (user a)) (if t1 = username (user a) then t0 else t1))"
  using assms by (auto simp add: can_join_room_def Let_def consumer_check_mutual_follow_def)

lemma connect_two_token_room:
  assumes "split_sep (of_char CHR ''_'') (url_room_name (scope c)) = [t0, t1]"
  shows "connect isdecimal d c =
    (if is_authenticated (user (connect_attrs c)) \<and>
        username (user (connect_attrs c)) \<in> {t0, t1} \<and>
        (if t1 = username (user (connect_attrs c)) then t0 else t1) \<in> users d \<and>
        check_mutual_follow d (username (user (connect_attrs c)))
          (if t1 = username (user (connect_attrs c)) then t0 else t1)
     then (if valid_group_name isdecimal (py ''chat_'' @ url_room_name (scope c))
           then Inr (c\<lparr>attrs := Some (connect_attrs c)\<rparr>,
               [Group_add (py ''chat_'' @ url_room_name (scope c)) (channel_name c), Accept,
                Group_send (py ''chat_'' @ url_room_name (scope c))
                  (Ev_user_joined (username (user (connect_attrs c))))])
           else Inl TypeError)
     else Inr (c\<lparr>attrs := Some (connect_attrs c)\<rparr>,
               [Close (if is_authenticated (user (connect_attrs c)) then 4003 else 4001)]))"
proof -
  let ?a = "connect_attrs c"
  have rn: "room_name ?a = url_room_name (scope c)"
    and gn: "room_group_name ?a = py ''chat_'' @ url_room_name (scope c)"
    by (simp_all add: connect_attrs_def)
  from assms rn have sp: "split_sep (of_char CHR ''_'') (room_name ?a) = [t0, t1]" by simp
  note cj = can_join_room_two_tokens[OF sp, of d]
  show ?thesis
  proof (cases "is_authenticated (user ?a)")
    case False
    from connect_unauthenticated[OF False, of isdecimal d] False show ?thesis by simp
  next
    case auth: True
    show ?thesis
    proof (cases "username (user ?a) \<in> {t0, t1} \<and>
         (if t1 = username (user ?a) then t0 else t1) \<in> users d \<and>
         check_mutual_follow d (username (user ?a)) (if t1 = username (user ?a) then t0 else t1)")
      case ok: True
      with cj have can: "can_join_room d ?a = Inr True" by simp
      show ?thesis
      proof (cases "valid_group_name isdecimal (room_group_name ?a)")
        case True
        from connect_joined[OF auth can True] ok auth True gn show ?thesis by simp
      next
        case False
        from connect_group_name_refused[OF auth can False] ok auth False gn
        show ?thesis by simp
      qed
    next
      case no: False
      with cj have "can_join_room d ?a = Inr False" by simp
      from connect_refused[OF auth this, of isdecimal] no auth show ?thesis by simp
    qed
  qed
qed

lemma layer_step_discard_absent:
  assumes "ch \<notin> g grp"
  shows "layer_step g (Group_discard grp ch) = g"
  using assms by (auto simp add: fun_eq_iff)

text \<open>
  C2, as the code has it. A connection attempt that \<open>connect\<close> refuses is closed with
  one of two codes: 4001 when the identity is anonymous or not authenticated, and 4003
  both when the authenticated identity is not among the tokens of the room name and when
  it is but the mutual-follow check refuses the other participant. Every \<open>Close\<close> that
  \<open>connect\<close> issues is the only effect of the call and carries 4001 exactly for the
  unauthenticated identities.
\<close>

theorem connect_close_codes:
  fixes d :: db and c :: consumer and isdecimal :: "nat \<Rightarrow> bool"
  defines "a \<equiv> connect_attrs c"
  defines "c' \<equiv> c\<lparr>attrs := Some (connect_attrs c)\<rparr>"
  shows "(\<not> is_authenticated (user a) \<longrightarrow> connect isdecimal d c = Inr (c', [Close 4001])) \<and>
    (is_authenticated (user a) \<and>
       username (user a) \<notin> set (split_sep (of_char CHR ''_'') (room_name a)) \<longrightarrow>
         connect isdecimal d c = Inr (c', [Close 4003])) \<and>
    (\<forall>p0 p1 rest.
       is_authenticated (user a) \<and>
       split_sep (of_char CHR ''_'') (room_name a) = p0 # p1 # rest \<and>
       username (user a) \<in> set (p0 # p1 # rest) \<and>
       \<not> consumer_check_mutual_follow d a (if p1 = username (user a) then p0 else p1) \<longrightarrow>
         connect isdecimal d c = Inr (c', [Close 4003])) \<and>
    (\<forall>c2 effs code.
       connect isdecimal d c = Inr (c2, effs) \<and> Close code \<in> set effs \<longrightarrow>
         effs = [Close code] \<and>
         (if is_authenticated (user a) then code = 4003 else code = 4001))"
proof (intro conjI allI impI)
  assume "\<not> is_authenticated (user a)"
  then show "connect isdecimal d c = Inr (c', [Close 4001])"
    unfolding a_def c'_def by (rule connect_unauthenticated)
next
  assume h: "is_authenticated (user a) \<and>
       username (user a) \<notin> set (split_sep (of_char CHR ''_'') (room_name a))"
  then have "can_join_room d a = Inr False"
    by (simp add: can_join_room_not_participant)
  with h show "connect isdecimal d c = Inr (c', [Close 4003])"
    unfolding a_def c'_def by (simp add: connect_refused)
next
  fix p0 p1 rest
  assume h: "is_authenticated (user a) \<and>
       split_sep (of_char CHR ''_'') (room_name a) = p0 # p1 # rest \<and>
       username (user a) \<in> set (p0 # p1 # rest) \<and>
       \<not> consumer_check_mutual_follow d a (if p1 = username (user a) then p0 else p1)"
  then have "can_join_room d a = Inr False"
    using can_join_room_participant[of a p0 p1 rest d] by simp
  with h show "connect isdecimal d c = Inr (c', [Close 4003])"
    unfolding a_def c'_def by (simp add: connect_refused)
next
  fix c2 effs code
  assume h: "connect isdecimal d c = Inr (c2, effs) \<and> Close code \<in> set effs"
  then have "connect isdecimal d c = Inr (c2, effs)" and m: "Close code \<in> set effs" by simp_all
  from connect_Inr_cases[OF this(1)] m
  show "effs = [Close code]" unfolding a_def by auto
  from connect_Inr_cases[OF \<open>connect isdecimal d c = Inr (c2, effs)\<close>] m
  show "if is_authenticated (user a) then code = 4003 else code = 4001"
    unfolding a_def by auto
qed

text \<open>
  C2, as the specification states it, asks for a third code that tells "not a
  participant" from "mutual follow refused". Mallory, who is no participant of
  \<open>alice_bob\<close>, and carol, a participant of \<open>carol_dave\<close> whom dave does not follow
  back, are closed with the same code 4003.
\<close>

theorem close_codes_shared_counterexample:
  "map_sum id snd (connect ascii_digit social_db
      (ws_consumer (py ''ch1'') (Some (MyUser (py ''mallory''))) (py ''alice_bob''))) =
     Inr [Close 4003] \<and>
   map_sum id snd (connect ascii_digit social_db
      (ws_consumer (py ''ch2'') (Some (MyUser (py ''carol''))) (py ''carol_dave''))) =
     Inr [Close 4003] \<and>
   py ''mallory'' \<notin> set (split_sep (of_char CHR ''_'') (py ''alice_bob'')) \<and>
   split_sep (of_char CHR ''_'') (py ''carol_dave'') = [py ''carol'', py ''dave''] \<and>
   \<not> check_mutual_follow social_db (py ''carol'') (py ''dave'')"
  by (simp add: connect_def connect_attrs_def can_join_room_def consumer_check_mutual_follow_def
      check_mutual_follow_def social_db_def ws_consumer_def py_def Let_def)

theorem connect_close_codes_witness:
  "connect ascii_digit social_db (ws_consumer (py ''ch0'') None (py ''alice_bob'')) =
     Inr ((ws_consumer (py ''ch0'') None (py ''alice_bob''))
            \<lparr>attrs := Some (connect_attrs (ws_consumer (py ''ch0'') None (py ''alice_bob'')))\<rparr>,
          [Close 4001]) \<and>
   connect ascii_digit social_db (ws_consumer (py ''ch1'') (Some (MyUser (py ''mallory''))) (py ''alice_bob'')) =
     Inr ((ws_consumer (py ''ch1'') (Some (MyUser (py ''mallory''))) (py ''alice_bob''))
            \<lparr>attrs := Some (connect_attrs
               (ws_consumer (py ''ch1'') (Some (MyUser (py ''mallory''))) (py ''alice_bob'')))\<rparr>,
          [Close 4003]) \<and>
   connect ascii_digit social_db (ws_consumer (py ''ch2'') (Some (MyUser (py ''carol''))) (py ''carol_dave'')) =
     Inr ((ws_consumer (py ''ch2'') (Some (MyUser (py ''carol''))) (py ''carol_dave''))
            \<lparr>attrs := Some (connect_attrs
               (ws_consumer (py ''ch2'') (Some (MyUser (py ''carol''))) (py ''carol_dave'')))\<rparr>,
          [Close 4003])"
proof -
  let ?c0 = "ws_consumer (py ''ch0'') None (py ''alice_bob'')"
  let ?c1 = "ws_consumer (py ''ch1'') (Some (MyUser (py ''mallory''))) (py ''alice_bob'')"
  let ?c2 = "ws_consumer (py ''ch2'') (Some (MyUser (py ''carol''))) (py ''carol_dave'')"
  have a0: "\<not> is_authenticated (user (connect_attrs ?c0))"
    by (simp add: connect_attrs_def ws_consumer_def)
  have a1: "is_authenticated (user (connect_attrs ?c1)) \<and>
       username (user (connect_attrs ?c1)) \<notin>
         set (split_sep (of_char CHR ''_'') (room_name (connect_attrs ?c1)))"
    by (simp add: connect_attrs_def ws_consumer_def py_def)
  have a2: "is_authenticated (user (connect_attrs ?c2)) \<and>
       split_sep (of_char CHR ''_'') (room_name (connect_attrs ?c2)) = py ''carol'' # py ''dave'' # [] \<and>
       username (user (connect_attrs ?c2)) \<in> set (py ''carol'' # py ''dave'' # []) \<and>
       \<not> consumer_check_mutual_follow social_db (connect_attrs ?c2)
           (if py ''dave'' = username (user (connect_attrs ?c2)) then py ''carol'' else py ''dave'')"
    by (simp add: connect_attrs_def ws_consumer_def py_def consumer_check_mutual_follow_def
        check_mutual_follow_def social_db_def)
  from connect_close_codes[of ?c0 ascii_digit social_db] a0
  have r0: "connect ascii_digit social_db ?c0 = Inr (?c0\<lparr>attrs := Some (connect_attrs ?c0)\<rparr>, [Close 4001])"
    by blast
  from connect_close_codes[of ?c1 ascii_digit social_db] a1
  have r1: "connect ascii_digit social_db ?c1 = Inr (?c1\<lparr>attrs := Some (connect_attrs ?c1)\<rparr>, [Close 4003])"
    by blast
  from connect_close_codes[of ?c2 ascii_digit social_db] a2
  have r2: "connect ascii_digit social_db ?c2 = Inr (?c2\<lparr>attrs := Some (connect_attrs ?c2)\<rparr>, [Close 4003])"
    by blast
  from r0 r1 r2 show ?thesis by simp
qed

text \<open>
  C3 asks that a connection joins the broadcast group only if the room name is made of
  two participant tokens, one of them the connecting identity, and the two follow each
  other. The room name \<open>a_b_c\<close> has three tokens; user c, who follows b and is followed
  back, connects to it, is added to the group \<open>chat_a_b_c\<close> and accepted.
\<close>

theorem connect_joins_three_token_room:
  "split_sep (of_char CHR ''_'') (py ''a_b_c'') = [py ''a'', py ''b'', py ''c''] \<and>
   connect isdecimal abc_db (ws_consumer (py ''ch1'') (Some (MyUser (py ''c''))) (py ''a_b_c'')) =
     Inr (joined_consumer (py ''ch1'') (py ''c'') (py ''a_b_c''),
          [Group_add (py ''chat_a_b_c'') (py ''ch1''), Accept,
           Group_send (py ''chat_a_b_c'') (Ev_user_joined (py ''c''))]) \<and>
   py ''ch1'' \<in> layer_run (\<lambda>grp. {})
       [Group_add (py ''chat_a_b_c'') (py ''ch1''), Accept,
        Group_send (py ''chat_a_b_c'') (Ev_user_joined (py ''c''))] (py ''chat_a_b_c'')"
  by (simp add: connect_def connect_attrs_def can_join_room_def consumer_check_mutual_follow_def
      check_mutual_follow_def abc_db_def ws_consumer_def joined_consumer_def py_def Let_def
      layer_run_def valid_group_name_def group_name_regex_match_def group_name_char_def)

text \<open>
  The same missing length check: a room name of one token that is the connecting
  identity makes \<open>participants[1]\<close> raise, so the attempt is neither closed with a code
  nor joined. On a room name of exactly two tokens whose group name the channel layer
  accepts, \<open>connect\<close> does what C3 says.
\<close>

lemma connect_one_token_room_crashes:
  "connect ascii_digit social_db (ws_consumer (py ''ch1'') (Some (MyUser (py ''alice''))) (py ''alice'')) =
     Inl IndexError"
  by (simp add: connect_def connect_attrs_def can_join_room_def social_db_def ws_consumer_def
      py_def Let_def)

lemma split_sep_no_separator:
  assumes "sep \<notin> set s"
  shows "split_sep sep s = [s]"
  using assms by (induction s) auto

lemma disconnect_group_name_refused:
  assumes "attrs c = Some a" and "\<not> valid_group_name isdecimal (room_group_name a)"
  shows "disconnect isdecimal c close_code = Inl TypeError"
  using assms by (simp add: disconnect_def)

lemma disconnect_group_name_accepted:
  assumes "attrs c = Some a" and "valid_group_name isdecimal (room_group_name a)"
  shows "disconnect isdecimal c close_code =
    Inr [Group_send (room_group_name a) (Ev_user_left (username (user a))),
         Group_discard (room_group_name a) (channel_name c)]"
  using assms by (simp add: disconnect_def)

text \<open>
  C9, as the code has it. When \<open>connect\<close> closed the connection (so nothing was added
  to any group) and the channel layer accepts the group name of the requested room, the
  \<open>disconnect\<close> that follows still sends \<open>user_left\<close> for the refused identity to
  that group, because \<open>room_group_name\<close> was assigned before the checks: every member
  of the group with another username gets the \<open>user_left\<close> frame. The
  \<open>group_discard\<close> that follows does not raise and leaves the groups as they were.
\<close>

theorem rejected_connect_announces_leave:
  assumes "connect isdecimal d c = Inr (c', effs)" and "Close code \<in> set effs"
    and "valid_group_name isdecimal (py ''chat_'' @ url_room_name (scope c))"
  shows "layer_run g effs = g \<and>
    disconnect isdecimal c' close_code =
      Inr [Group_send (py ''chat_'' @ url_room_name (scope c))
             (Ev_user_left (username (user (connect_attrs c)))),
           Group_discard (py ''chat_'' @ url_room_name (scope c)) (channel_name c)] \<and>
    (channel_name c \<notin> g (py ''chat_'' @ url_room_name (scope c)) \<longrightarrow>
       layer_run g
         [Group_send (py ''chat_'' @ url_room_name (scope c))
            (Ev_user_left (username (user (connect_attrs c)))),
          Group_discard (py ''chat_'' @ url_room_name (scope c)) (channel_name c)] = g) \<and>
    (\<forall>ch m a. ch \<in> g (py ''chat_'' @ url_room_name (scope c)) \<and> live ch = Some m \<and>
       attrs m = Some a \<and> username (user a) \<noteq> username (user (connect_attrs c)) \<longrightarrow>
         deliveries live g (channel_name c)
           [Group_send (py ''chat_'' @ url_room_name (scope c))
              (Ev_user_left (username (user (connect_attrs c)))),
            Group_discard (py ''chat_'' @ url_room_name (scope c)) (channel_name c)] ch =
           [F_user_left (username (user (connect_attrs c)))])"
proof -
  from connect_Inr_cases[OF assms(1)] assms(2)
  have c': "c' = c\<lparr>attrs := Some (connect_attrs c)\<rparr>" and effs: "effs = [Close code]"
    by auto
  have gn: "room_group_name (connect_attrs c) = py ''chat_'' @ url_room_name (scope c)"
    by (simp add: connect_attrs_def)
  have at: "attrs c' = Some (connect_attrs c)" by (simp add: c')
  from assms(3) gn have "valid_group_name isdecimal (room_group_name (connect_attrs c))"
    by simp
  from disconnect_group_name_accepted[OF at this, of close_code]
  have dis: "disconnect isdecimal c' close_code =
      Inr [Group_send (py ''chat_'' @ url_room_name (scope c))
             (Ev_user_left (username (user (connect_attrs c)))),
           Group_discard (py ''chat_'' @ url_room_name (scope c)) (channel_name c)]"
    by (simp add: gn c')
  have run: "layer_run g effs = g" by (simp add: effs layer_run_def)
  have same: "channel_name c \<notin> g (py ''chat_'' @ url_room_name (scope c)) \<longrightarrow>
       layer_run g
         [Group_send (py ''chat_'' @ url_room_name (scope c))
            (Ev_user_left (username (user (connect_attrs c)))),
          Group_discard (py ''chat_'' @ url_room_name (scope c)) (channel_name c)] = g"
    by (simp add: layer_run_def layer_step_discard_absent)
  have dl: "\<forall>ch m a. ch \<in> g (py ''chat_'' @ url_room_name (scope c)) \<and> live ch = Some m \<and>
       attrs m = Some a \<and> username (user a) \<noteq> username (user (connect_attrs c)) \<longrightarrow>
         deliveries live g (channel_name c)
           [Group_send (py ''chat_'' @ url_room_name (scope c))
              (Ev_user_left (username (user (connect_attrs c)))),
            Group_discard (py ''chat_'' @ url_room_name (scope c)) (channel_name c)] ch =
           [F_user_left (username (user (connect_attrs c)))]"
    by (auto simp add: user_left_def)
  from run dis same dl show ?thesis by blast
qed

theorem rejected_connect_announces_leave_witness:
  "Close 4003 \<in> set [Close 4003] \<and>
   valid_group_name ascii_digit (py ''chat_alice_bob'') \<and>
   disconnect ascii_digit
       ((ws_consumer (py ''ch1'') (Some (MyUser (py ''mallory''))) (py ''alice_bob''))
        \<lparr>attrs := Some (connect_attrs
           (ws_consumer (py ''ch1'') (Some (MyUser (py ''mallory''))) (py ''alice_bob'')))\<rparr>) 1006 =
     Inr [Group_send (py ''chat_alice_bob'') (Ev_user_left (py ''mallory'')),
          Group_discard (py ''chat_alice_bob'') (py ''ch1'')] \<and>
   deliveries (\<lambda>ch. if ch = py ''ch_a'' then Some (joined_consumer (py ''ch_a'') (py ''alice'') (py ''alice_bob'')) else None)
     (\<lambda>grp. if grp = py ''chat_alice_bob'' then {py ''ch_a''} else {}) (py ''ch1'')
     [Group_send (py ''chat_alice_bob'') (Ev_user_left (py ''mallory'')),
      Group_discard (py ''chat_alice_bob'') (py ''ch1'')]
     (py ''ch_a'') = [F_user_left (py ''mallory'')]"
proof -
  let ?c = "ws_consumer (py ''ch1'') (Some (MyUser (py ''mallory''))) (py ''alice_bob'')"
  let ?c' = "?c\<lparr>attrs := Some (connect_attrs ?c)\<rparr>"
  let ?live = "\<lambda>ch. if ch = py ''ch_a'' then Some (joined_consumer (py ''ch_a'') (py ''alice'') (py ''alice_bob'')) else None"
  let ?g = "\<lambda>grp. if grp = py ''chat_alice_bob'' then {py ''ch_a''} else ({}::str set)"
  have h1: "connect ascii_digit social_db ?c = Inr (?c', [Close 4003])"
    by (simp add: connect_def connect_attrs_def can_join_room_def social_db_def ws_consumer_def
        py_def Let_def)
  have h2: "Close 4003 \<in> set [Close 4003]" by simp
  have names: "py ''chat_'' @ url_room_name (scope ?c) = py ''chat_alice_bob''"
      "username (user (connect_attrs ?c)) = py ''mallory''" "channel_name ?c = py ''ch1''"
    by (simp_all add: ws_consumer_def connect_attrs_def py_def)
  have v: "valid_group_name ascii_digit (py ''chat_alice_bob'')"
    by (simp add: valid_group_name_def group_name_regex_match_def group_name_char_def py_def)
  then have h3: "valid_group_name ascii_digit (py ''chat_'' @ url_room_name (scope ?c))"
    by (simp only: names)
  have mem: "py ''ch_a'' \<in> ?g (py ''chat_alice_bob'') \<and>
      ?live (py ''ch_a'') = Some (joined_consumer (py ''ch_a'') (py ''alice'') (py ''alice_bob'')) \<and>
      attrs (joined_consumer (py ''ch_a'') (py ''alice'') (py ''alice_bob'')) =
        Some \<lparr>user = MyUser (py ''alice''), room_name = py ''alice_bob'',
              room_group_name = py ''chat_'' @ py ''alice_bob''\<rparr> \<and>
      username (user \<lparr>user = MyUser (py ''alice''), room_name = py ''alice_bob'',
              room_group_name = py ''chat_'' @ py ''alice_bob''\<rparr>) \<noteq> py ''mallory''"
    by (simp add: joined_consumer_def py_def)
  note t = rejected_connect_announces_leave[OF h1 h2 h3, of ?g 1006 ?live, unfolded names]
  from t have d: "disconnect ascii_digit ?c' 1006 =
     Inr [Group_send (py ''chat_alice_bob'') (Ev_user_left (py ''mallory'')),
          Group_discard (py ''chat_alice_bob'') (py ''ch1'')]" by blast
  from t mem have "deliveries ?live ?g (py ''ch1'')
      [Group_send (py ''chat_alice_bob'') (Ev_user_left (py ''mallory'')),
       Group_discard (py ''chat_alice_bob'') (py ''ch1'')] (py ''ch_a'') =
      [F_user_left (py ''mallory'')]" by blast
  with d h2 v show ?thesis by simp
qed

text \<open>
  C9, as stated, is about every rejected attempt. Mallory is refused in a room whose
  name has 95 letters: the group name has 100 characters, the channel layer refuses it,
  and \<open>disconnect\<close> raises at its \<open>group_send\<close>: no \<open>user_left\<close> is sent.
\<close>

theorem rejected_long_room_disconnect_raises_counterexample:
  "connect ascii_digit social_db
      (ws_consumer (py ''ch1'') (Some (MyUser (py ''mallory''))) long_room) =
     Inr ((ws_consumer (py ''ch1'') (Some (MyUser (py ''mallory''))) long_room)
            \<lparr>attrs := Some (connect_attrs
               (ws_consumer (py ''ch1'') (Some (MyUser (py ''mallory''))) long_room))\<rparr>,
          [Close 4003]) \<and>
   length (py ''chat_'' @ long_room) = 100 \<and>
   disconnect ascii_digit
      ((ws_consumer (py ''ch1'') (Some (MyUser (py ''mallory''))) long_room)
            \<lparr>attrs := Some (connect_attrs
               (ws_consumer (py ''ch1'') (Some (MyUser (py ''mallory''))) long_room))\<rparr>) 1006 =
     Inl TypeError"
proof -
  let ?c = "ws_consumer (py ''ch1'') (Some (MyUser (py ''mallory''))) long_room"
  have at: "user (connect_attrs ?c) = MyUser (py ''mallory'')"
      "room_name (connect_attrs ?c) = long_room"
      "room_group_name (connect_attrs ?c) = py ''chat_'' @ long_room"
    by (simp_all add: connect_attrs_def ws_consumer_def)
  have "of_char CHR ''_'' \<notin> set long_room" by (simp add: long_room_def)
  then have sp: "split_sep (of_char CHR ''_'') long_room = [long_room]"
    by (rule split_sep_no_separator)
  have "length (py ''mallory'') \<noteq> length long_room" by (simp add: long_room_def py_def)
  then have ne: "py ''mallory'' \<noteq> long_room" by auto
  from sp ne at have "can_join_room social_db (connect_attrs ?c) = Inr False"
    by (simp add: can_join_room_not_participant)
  with at have r: "connect ascii_digit social_db ?c =
      Inr (?c\<lparr>attrs := Some (connect_attrs ?c)\<rparr>, [Close 4003])"
    by (simp add: connect_refused)
  have len: "length (py ''chat_'' @ long_room) = 100" by (simp add: long_room_def py_def)
  then have "\<not> valid_group_name ascii_digit (room_group_name (connect_attrs ?c))"
    by (simp add: valid_group_name_def at)
  then have "disconnect ascii_digit (?c\<lparr>attrs := Some (connect_attrs ?c)\<rparr>) 1006 = Inl TypeError"
    by (simp add: disconnect_def)
  with r len show ?thesis by simp
qed

section \<open>Properties of ChatConsumer.receive\<close>

lemma strip_replicate:
  assumes "\<not> isspace x"
  shows "strip (replicate n x) = replicate n x"
proof (cases n)
  case 0
  then show ?thesis by (simp add: strip_def)
next
  case (Suc k)
  with assms have "dropWhile isspace (replicate n x) = replicate n x" by simp
  then show ?thesis by (simp add: strip_def)
qed

lemma handle_chat_message_empty:
  assumes "json_get data (py ''content'') (JString []) = Inr (JString raw)"
    and "strip raw = []"
  shows "handle_chat_message d c ts data =
    Inr (d, [Send (F_error (Msg ''Message content cannot be empty''))])"
  using assms by (simp add: handle_chat_message_def send_error_def)

lemma handle_chat_message_too_long:
  assumes "json_get data (py ''content'') (JString []) = Inr (JString raw)"
    and "2000 < length (strip raw)"
  shows "handle_chat_message d c ts data =
    Inr (d, [Send (F_error (Msg ''Message too long (max 2000 characters)''))])"
proof -
  from assms(2) have "strip raw \<noteq> []" by auto
  with assms show ?thesis by (simp add: handle_chat_message_def send_error_def Let_def)
qed

lemma handle_chat_message_valid:
  assumes "json_get data (py ''content'') (JString []) = Inr (JString raw)"
    and "strip raw \<noteq> []" and "length (strip raw) \<le> 2000"
    and "attrs c = Some a"
  shows "handle_chat_message d c ts data =
    Inr (d, [Group_send (room_group_name a)
               (Ev_chat_message (strip raw) (username (user a)) ts None)])"
  using assms by (simp add: handle_chat_message_def Let_def)

lemma receive_chat_message:
  assumes "json_get data (py ''type'') (JString (py ''chat_message'')) =
      Inr (JString (py ''chat_message''))"
  shows "receive d c ts (Some data) = handle_chat_message d c ts data"
  using assms by (simp add: receive_def)

lemma deliveries_send:
  "deliveries live g self [Send f] ch = (if ch = self then [f] else [])"
  by simp

lemma deliveries_chat_message:
  "deliveries live g self [Group_send grp (Ev_chat_message co s ts mid)] ch =
     (if ch \<in> g grp \<and> live ch \<noteq> None then [F_chat_message co s ts mid] else [])"
  by (auto simp add: chat_message_def)

lemma chat_frame_type:
  "json_get (chat_frame text) (py ''type'') (JString (py ''chat_message'')) =
     Inr (JString (py ''chat_message''))"
  by (simp add: chat_frame_def py_def)

lemma chat_frame_content:
  "json_get (chat_frame text) (py ''content'') (JString []) = Inr (JString text)"
  by (simp add: chat_frame_def py_def)

lemma joined_consumer_attrs:
  "attrs (joined_consumer ch name room) =
     Some \<lparr>user = MyUser name, room_name = room, room_group_name = py ''chat_'' @ room\<rparr>"
  by (simp add: joined_consumer_def)

lemma receive_saves_nothing:
  assumes "receive d c ts loaded = Inr (d', effs)"
  shows "d' = d"
  using assms
  by (auto simp add: receive_def handle_chat_message_def handle_typing_start_def
      handle_typing_stop_def handle_mark_read_def send_error_def Let_def
      split: option.splits sum.splits json.splits if_splits)

lemma handle_chat_message_no_message_id:
  assumes "handle_chat_message d c ts data = Inr (d', effs)"
    and "Group_send grp (Ev_chat_message co s t mid) \<in> set effs"
  shows "mid = None"
  using assms
  by (auto simp add: handle_chat_message_def send_error_def Let_def
      split: option.splits sum.splits json.splits if_splits)

lemma handle_chat_message_effects:
  assumes "handle_chat_message d c ts data = Inr (d', effs)"
  shows "(\<exists>text. effs = [Send (F_error (Msg text))]) \<or>
    (\<exists>grp co s. effs = [Group_send grp (Ev_chat_message co s ts None)])"
  using assms
  by (auto simp add: handle_chat_message_def send_error_def Let_def
      split: option.splits sum.splits json.splits if_splits)

text \<open>
  C5. A chat_message frame whose content has between 1 and 2000 characters after
  trimming (2000 included) is broadcast: the only effect is a \<open>group_send\<close> of the
  trimmed content to the room group, which reaches every connection of the group. When
  the trimmed content is empty or has 2001 characters or more, the only effect is one
  error frame on the sender's own socket: no other connection gets anything. In both
  cases the database comes back unchanged.
\<close>

theorem chat_message_content_bounds:
  assumes "attrs c = Some a"
    and "json_get data (py ''type'') (JString (py ''chat_message'')) =
      Inr (JString (py ''chat_message''))"
    and "json_get data (py ''content'') (JString []) = Inr (JString raw)"
  shows "(strip raw \<noteq> [] \<and> length (strip raw) \<le> 2000 \<longrightarrow>
       receive d c ts (Some data) =
         Inr (d, [Group_send (room_group_name a)
                    (Ev_chat_message (strip raw) (username (user a)) ts None)]) \<and>
       (\<forall>ch. deliveries live g (channel_name c)
                [Group_send (room_group_name a)
                   (Ev_chat_message (strip raw) (username (user a)) ts None)] ch =
              (if ch \<in> g (room_group_name a) \<and> live ch \<noteq> None
               then [F_chat_message (strip raw) (username (user a)) ts None] else []))) \<and>
    (strip raw = [] \<or> 2001 \<le> length (strip raw) \<longrightarrow>
       (\<exists>text. receive d c ts (Some data) = Inr (d, [Send (F_error (Msg text))]) \<and>
          (\<forall>ch. deliveries live g (channel_name c) [Send (F_error (Msg text))] ch =
                 (if ch = channel_name c then [F_error (Msg text)] else []))))"
proof (intro conjI impI)
  assume ok: "strip raw \<noteq> [] \<and> length (strip raw) \<le> 2000"
  with assms show "receive d c ts (Some data) =
         Inr (d, [Group_send (room_group_name a)
                    (Ev_chat_message (strip raw) (username (user a)) ts None)])"
    by (simp add: receive_chat_message handle_chat_message_valid)
  show "\<forall>ch. deliveries live g (channel_name c)
                [Group_send (room_group_name a)
                   (Ev_chat_message (strip raw) (username (user a)) ts None)] ch =
              (if ch \<in> g (room_group_name a) \<and> live ch \<noteq> None
               then [F_chat_message (strip raw) (username (user a)) ts None] else [])"
    using deliveries_chat_message by blast
next
  assume bad: "strip raw = [] \<or> 2001 \<le> length (strip raw)"
  then consider (empty) "strip raw = []" | (long) "2000 < length (strip raw)" by fastforce
  then have "\<exists>text. receive d c ts (Some data) = Inr (d, [Send (F_error (Msg text))])"
  proof cases
    case empty
    with assms show ?thesis by (simp add: receive_chat_message handle_chat_message_empty)
  next
    case long
    with assms show ?thesis by (simp add: receive_chat_message handle_chat_message_too_long)
  qed
  then show "\<exists>text. receive d c ts (Some data) = Inr (d, [Send (F_error (Msg text))]) \<and>
          (\<forall>ch. deliveries live g (channel_name c) [Send (F_error (Msg text))] ch =
                 (if ch = channel_name c then [F_error (Msg text)] else []))"
    using deliveries_send by blast
qed

theorem chat_message_content_bounds_witness:
  "receive social_db (joined_consumer (py ''ch_a'') (py ''alice'') (py ''alice_bob''))
       (py ''12:00Z'') (Some (chat_frame (replicate 2000 (of_char CHR ''x'')))) =
     Inr (social_db, [Group_send (py ''chat_alice_bob'')
        (Ev_chat_message (replicate 2000 (of_char CHR ''x'')) (py ''alice'') (py ''12:00Z'') None)]) \<and>
   (\<exists>text. receive social_db (joined_consumer (py ''ch_a'') (py ''alice'') (py ''alice_bob''))
       (py ''12:00Z'') (Some (chat_frame (replicate 2001 (of_char CHR ''x'')))) =
     Inr (social_db, [Send (F_error (Msg text))])) \<and>
   (\<exists>text. receive social_db (joined_consumer (py ''ch_a'') (py ''alice'') (py ''alice_bob''))
       (py ''12:00Z'') (Some (chat_frame (py ''   '')))  =
     Inr (social_db, [Send (F_error (Msg text))]))"
proof -
  let ?c = "joined_consumer (py ''ch_a'') (py ''alice'') (py ''alice_bob'')"
  let ?a = "\<lparr>user = MyUser (py ''alice''), room_name = py ''alice_bob'',
             room_group_name = py ''chat_'' @ py ''alice_bob''\<rparr>"
  have x: "\<not> isspace (of_char CHR ''x'')" by (simp add: isspace_def)
  have s0: "strip (replicate 2000 (of_char CHR ''x'')) = replicate 2000 (of_char CHR ''x'')"
    and s1: "strip (replicate 2001 (of_char CHR ''x'')) = replicate 2001 (of_char CHR ''x'')"
    by (rule strip_replicate[OF x])+
  have s2: "strip (py ''   '') = []"
    by (simp add: strip_def py_def isspace_def)
  have g: "room_group_name ?a = py ''chat_alice_bob''" "username (user ?a) = py ''alice''"
    by (simp_all add: py_def)
  note t = chat_message_content_bounds[
      OF joined_consumer_attrs[of "py ''ch_a''" "py ''alice''" "py ''alice_bob''"]
         chat_frame_type chat_frame_content,
      where d = social_db and ts = "py ''12:00Z''" and live = alice_bob_live
        and g = alice_bob_groups]
  from t[of "replicate 2000 (of_char CHR ''x'')"] s0 g
  have r0: "receive social_db ?c (py ''12:00Z'') (Some (chat_frame (replicate 2000 (of_char CHR ''x'')))) =
     Inr (social_db, [Group_send (py ''chat_alice_bob'')
        (Ev_chat_message (replicate 2000 (of_char CHR ''x'')) (py ''alice'') (py ''12:00Z'') None)])"
    by simp
  from t[of "replicate 2001 (of_char CHR ''x'')"] s1
  have r1: "\<exists>text. receive social_db ?c (py ''12:00Z'')
       (Some (chat_frame (replicate 2001 (of_char CHR ''x'')))) =
     Inr (social_db, [Send (F_error (Msg text))])"
    by auto
  from t[of "py ''   ''"] s2
  have r2: "\<exists>text. receive social_db ?c (py ''12:00Z'') (Some (chat_frame (py ''   ''))) =
     Inr (social_db, [Send (F_error (Msg text))])"
    by auto
  from r0 r1 r2 show ?thesis by blast
qed

text \<open>
  C1 asks that a valid chat message is saved (a Message appended, the Conversation's
  \<open>updated_at\<close> bumped) before it is broadcast, and that the broadcast carries the
  identifier of the saved message. Alice sends \<open>hi\<close> to the room of alice and bob: the
  database comes back as it was, with no message in it, and the event and the frame that
  bob gets have no message identifier.
\<close>

theorem chat_message_is_not_saved:
  "receive social_db (joined_consumer (py ''ch_a'') (py ''alice'') (py ''alice_bob''))
       (py ''12:00Z'') (Some (chat_frame (py ''hi''))) =
     Inr (social_db, [Group_send (py ''chat_alice_bob'')
        (Ev_chat_message (py ''hi'') (py ''alice'') (py ''12:00Z'') None)]) \<and>
   messages social_db = [] \<and>
   deliveries alice_bob_live alice_bob_groups (py ''ch_a'')
     [Group_send (py ''chat_alice_bob'')
        (Ev_chat_message (py ''hi'') (py ''alice'') (py ''12:00Z'') None)] (py ''ch_b'') =
     [F_chat_message (py ''hi'') (py ''alice'') (py ''12:00Z'') None]"
  by (simp add: receive_def handle_chat_message_def chat_frame_def joined_consumer_def
      ws_consumer_def social_db_def py_def strip_def isspace_def Let_def
      alice_bob_live_def alice_bob_groups_def chat_message_def)

text \<open>
  C10, as the code has it. A frame that is a JSON object without a \<open>type\<close> key is
  handled exactly as a chat_message frame with the same fields, and never gets the
  unknown-message-type error.
\<close>

theorem frame_without_type_is_chat_message:
  assumes "map_of items (py ''type'') = None"
  shows "receive d c ts (Some (JObject items)) = handle_chat_message d c ts (JObject items) \<and>
    (\<forall>d' effs v. receive d c ts (Some (JObject items)) = Inr (d', effs) \<longrightarrow>
       Send (F_error (Unknown_message_type v)) \<notin> set effs)"
proof -
  from assms have eq: "receive d c ts (Some (JObject items)) =
      handle_chat_message d c ts (JObject items)"
    by (simp add: receive_chat_message)
  have "Send (F_error (Unknown_message_type v)) \<notin> set effs"
    if "receive d c ts (Some (JObject items)) = Inr (d', effs)" for d' effs v
    using handle_chat_message_effects[of d c ts "JObject items" d' effs] that eq by auto
  with eq show ?thesis by blast
qed

text \<open>
  C10, as stated, says that a frame without a type produces no error frame. The frame
  \<open>{}\<close> has no type, is handled as a chat message with empty content, and gets the
  error frame for empty content.
\<close>

theorem frame_without_type_gets_error_counterexample:
  "json_get (JObject []) (py ''type'') JNull = Inr JNull \<and>
   receive social_db (joined_consumer (py ''ch_a'') (py ''alice'') (py ''alice_bob''))
       (py ''12:00Z'') (Some (JObject [])) =
     Inr (social_db, [Send (F_error (Msg ''Message content cannot be empty''))])"
  by (simp add: receive_def handle_chat_message_def send_error_def strip_def py_def)

theorem frame_without_type_is_chat_message_witness:
  "map_of [(py ''content'', JString (py ''hi''))] (py ''type'') = None \<and>
   receive social_db (joined_consumer (py ''ch_a'') (py ''alice'') (py ''alice_bob''))
       (py ''12:00Z'') (Some (JObject [(py ''content'', JString (py ''hi''))])) =
     Inr (social_db, [Group_send (py ''chat_alice_bob'')
        (Ev_chat_message (py ''hi'') (py ''alice'') (py ''12:00Z'') None)])"
proof -
  have h: "map_of [(py ''content'', JString (py ''hi''))] (py ''type'') = None"
    by (simp add: py_def)
  have "handle_chat_message social_db
      (joined_consumer (py ''ch_a'') (py ''alice'') (py ''alice_bob'')) (py ''12:00Z'')
      (JObject [(py ''content'', JString (py ''hi''))]) =
     Inr (social_db, [Group_send (py ''chat_alice_bob'')
        (Ev_chat_message (py ''hi'') (py ''alice'') (py ''12:00Z'') None)])"
    by (simp add: handle_chat_message_def joined_consumer_def py_def strip_def isspace_def)
  with frame_without_type_is_chat_message[OF h] h show ?thesis by simp
qed

text \<open>
  A frame that is well-formed JSON but not an object has no \<open>get\<close>: \<open>receive\<close>
  raises before it dispatches anything.
\<close>

lemma frame_not_an_object_raises:
  "receive d c ts (Some (JArray [])) = Inl AttributeError"
  by (simp add: receive_def)

section \<open>Properties of the event handlers\<close>

lemma delivered_typing:
  assumes "live ch = Some m" and "attrs m = Some a" and "ch \<in> g grp"
  shows "delivered live g self (Group_send grp (Ev_typing_indicator name t)) ch =
    (if name = username (user a) then [] else [F_typing name t])"
  using assms by (simp add: typing_indicator_def)

lemma delivered_read_receipt:
  assumes "live ch = Some m" and "attrs m = Some a" and "ch \<in> g grp"
  shows "delivered live g self (Group_send grp (Ev_read_receipt name ids)) ch =
    (if name = username (user a) then [] else [F_read_receipt name ids])"
  using assms by (simp add: read_receipt_def)

lemma delivered_user_joined:
  assumes "live ch = Some m" and "attrs m = Some a" and "ch \<in> g grp"
  shows "delivered live g self (Group_send grp (Ev_user_joined name)) ch =
    (if name = username (user a) then [] else [F_user_joined name])"
  using assms by (simp add: user_joined_def)

lemma delivered_user_left:
  assumes "live ch = Some m" and "attrs m = Some a" and "ch \<in> g grp"
  shows "delivered live g self (Group_send grp (Ev_user_left name)) ch =
    (if name = username (user a) then [] else [F_user_left name])"
  using assms by (simp add: user_left_def)

lemma delivered_chat_message:
  assumes "live ch = Some m" and "ch \<in> g grp"
  shows "delivered live g self (Group_send grp (Ev_chat_message co s ts mid)) ch =
    [F_chat_message co s ts mid]"
  using assms by (simp add: chat_message_def)

lemma notices_name_their_sender:
  assumes "attrs c = Some a"
  shows "handle_typing_start d c =
      Inr (d, [Group_send (room_group_name a) (Ev_typing_indicator (username (user a)) True)])"
    and "handle_typing_stop d c =
      Inr (d, [Group_send (room_group_name a) (Ev_typing_indicator (username (user a)) False)])"
    and "handle_mark_read d c (JObject items) =
      Inr (d, [Group_send (room_group_name a)
         (Ev_read_receipt (username (user a))
            (case map_of items (py ''message_ids'') of None \<Rightarrow> JArray [] | Some v \<Rightarrow> v))])"
    and "disconnect isdecimal c close_code =
      (if valid_group_name isdecimal (room_group_name a)
       then Inr [Group_send (room_group_name a) (Ev_user_left (username (user a))),
                 Group_discard (room_group_name a) (channel_name c)]
       else Inl TypeError)"
  using assms
  by (simp_all add: handle_typing_start_def handle_typing_stop_def handle_mark_read_def
      disconnect_def)

text \<open>So a consumer never gets a frame for a notice that its own user caused.\<close>

lemma own_notices_not_echoed:
  assumes "attrs c = Some a" and "live ch = Some m" and "attrs m = Some b"
    and "username (user b) = username (user a)"
  shows "deliveries live g (channel_name c)
      [Group_send (room_group_name a) (Ev_typing_indicator (username (user a)) t)] ch = []"
    and "deliveries live g (channel_name c)
      [Group_send (room_group_name a) (Ev_read_receipt (username (user a)) ids)] ch = []"
    and "deliveries live g (channel_name c)
      [Group_add (room_group_name a) (channel_name c), Accept,
       Group_send (room_group_name a) (Ev_user_joined (username (user a)))] ch = []"
    and "deliveries live g (channel_name c)
      [Group_send (room_group_name a) (Ev_user_left (username (user a))),
       Group_discard (room_group_name a) (channel_name c)] ch = []"
  using assms
  by (simp_all add: typing_indicator_def read_receipt_def user_joined_def user_left_def)

text \<open>
  C8. For a connection that has joined the group: a typing indicator, a read receipt, a
  join notice and a leave notice reach its socket exactly when the username they carry
  (the subject that caused them, see \<open>notices_name_their_sender\<close>) is not the
  connection's own; a chat_message event always reaches it, whoever sent it, the sender's
  own connection included.
\<close>

theorem notices_skip_their_subject:
  assumes "live ch = Some m" and "attrs m = Some a" and "ch \<in> g grp"
  shows "delivered live g self (Group_send grp (Ev_typing_indicator name t)) ch =
      (if name = username (user a) then [] else [F_typing name t]) \<and>
    delivered live g self (Group_send grp (Ev_read_receipt name ids)) ch =
      (if name = username (user a) then [] else [F_read_receipt name ids]) \<and>
    delivered live g self (Group_send grp (Ev_user_joined name)) ch =
      (if name = username (user a) then [] else [F_user_joined name]) \<and>
    delivered live g self (Group_send grp (Ev_user_left name)) ch =
      (if name = username (user a) then [] else [F_user_left name]) \<and>
    delivered live g self (Group_send grp (Ev_chat_message co s ts mid)) ch =
      [F_chat_message co s ts mid]"
  using delivered_typing[where live = live and g = g and ch = ch and grp = grp, OF assms]
    delivered_read_receipt[where live = live and g = g and ch = ch and grp = grp, OF assms]
    delivered_user_joined[where live = live and g = g and ch = ch and grp = grp, OF assms]
    delivered_user_left[where live = live and g = g and ch = ch and grp = grp, OF assms]
    delivered_chat_message[where live = live and g = g and ch = ch and grp = grp,
      OF assms(1) assms(3)]
  by blast

theorem notices_skip_their_subject_witness:
  "delivered alice_bob_live alice_bob_groups (py ''ch_a'')
      (Group_send (py ''chat_alice_bob'') (Ev_typing_indicator (py ''alice'') True)) (py ''ch_a'') = [] \<and>
   delivered alice_bob_live alice_bob_groups (py ''ch_a'')
      (Group_send (py ''chat_alice_bob'') (Ev_typing_indicator (py ''alice'') True)) (py ''ch_b'') =
     [F_typing (py ''alice'') True] \<and>
   delivered alice_bob_live alice_bob_groups (py ''ch_a'')
      (Group_send (py ''chat_alice_bob'')
         (Ev_chat_message (py ''hi'') (py ''alice'') (py ''12:00Z'') None)) (py ''ch_a'') =
     [F_chat_message (py ''hi'') (py ''alice'') (py ''12:00Z'') None]"
proof -
  have la: "alice_bob_live (py ''ch_a'') =
      Some (joined_consumer (py ''ch_a'') (py ''alice'') (py ''alice_bob''))"
    and lb: "alice_bob_live (py ''ch_b'') =
      Some (joined_consumer (py ''ch_b'') (py ''bob'') (py ''alice_bob''))"
    by (simp_all add: alice_bob_live_def py_def)
  have ga: "py ''ch_a'' \<in> alice_bob_groups (py ''chat_alice_bob'')"
    and gb: "py ''ch_b'' \<in> alice_bob_groups (py ''chat_alice_bob'')"
    by (simp_all add: alice_bob_groups_def)
  have ne: "py ''alice'' \<noteq> py ''bob''" by (simp add: py_def)
  note ta = notices_skip_their_subject[where live = alice_bob_live and ch = "py ''ch_a''"
        and g = alice_bob_groups and grp = "py ''chat_alice_bob''"
        and self = "py ''ch_a''" and name = "py ''alice''" and t = True
        and co = "py ''hi''" and s = "py ''alice''" and ts = "py ''12:00Z''" and mid = None,
      OF la joined_consumer_attrs ga]
  note tb = notices_skip_their_subject[where live = alice_bob_live and ch = "py ''ch_b''"
        and g = alice_bob_groups and grp = "py ''chat_alice_bob''"
        and self = "py ''ch_a''" and name = "py ''alice''" and t = True,
      OF lb joined_consumer_attrs gb]
  from ta tb ne show ?thesis by simp
qed

section \<open>Properties of ConversationManager.get_or_create_between\<close>

lemma filter_participants:
  "filter (\<lambda>c. participant_1 c = p1 \<and> participant_2 c = p2) cs =
   filter (\<lambda>c. participants_of c = (p1, p2)) cs"
  by (simp add: participants_of_def)

lemma unique_filter:
  assumes "distinct (map f cs)"
  shows "filter (\<lambda>c. f c = k) cs = [] \<or> (\<exists>c. filter (\<lambda>c. f c = k) cs = [c])"
  using assms
proof (induction cs)
  case Nil
  then show ?case by simp
next
  case (Cons x xs)
  show ?case
  proof (cases "f x = k")
    case True
    with Cons.prems have "k \<notin> f ` set xs" by auto
    then have "filter (\<lambda>c. f c = k) xs = []" by (auto simp add: filter_empty_conv)
    with True show ?thesis by simp
  next
    case False
    with Cons show ?thesis by simp
  qed
qed

lemma conversation_get_unique:
  assumes "unique_conversation cs"
  shows "(conversation_get cs p1 p2 = Inr None \<and> (p1, p2) \<notin> set (map participants_of cs)) \<or>
    (\<exists>c. conversation_get cs p1 p2 = Inr (Some c) \<and> c \<in> set cs \<and>
         participants_of c = (p1, p2))"
proof -
  from assms have "distinct (map participants_of cs)" by (simp add: unique_conversation_def)
  from unique_filter[OF this, of "(p1, p2)"]
  show ?thesis
  proof
    assume e: "filter (\<lambda>c. participants_of c = (p1, p2)) cs = []"
    then have "(p1, p2) \<notin> set (map participants_of cs)"
      by (auto simp add: filter_empty_conv)
    with e show ?thesis by (simp add: conversation_get_def filter_participants)
  next
    assume "\<exists>c. filter (\<lambda>c. participants_of c = (p1, p2)) cs = [c]"
    then obtain c where c: "filter (\<lambda>c. participants_of c = (p1, p2)) cs = [c]" ..
    then have "c \<in> set (filter (\<lambda>c. participants_of c = (p1, p2)) cs)" by simp
    then have "c \<in> set cs" "participants_of c = (p1, p2)" by simp_all
    with c show ?thesis by (simp add: conversation_get_def filter_participants)
  qed
qed

lemma conversation_get_after_create:
  assumes "(p1, p2) \<notin> set (map participants_of cs)"
    and "participants_of c = (p1, p2)"
  shows "conversation_get (cs @ [c]) p1 p2 = Inr (Some c)"
proof -
  from assms(1) have "filter (\<lambda>c. participants_of c = (p1, p2)) cs = []"
    by (auto simp add: filter_empty_conv intro: rev_image_eqI)
  with assms(2) show ?thesis by (simp add: conversation_get_def filter_participants)
qed

lemma get_or_create_unique:
  assumes "unique_conversation cs" and "unique_pk cs" and "new_id \<notin> set (map conv_id cs)"
  shows "\<exists>c created cs'. get_or_create cs new_id now_c now_u p1 p2 = Inr (c, created, cs') \<and>
    participants_of c = (p1, p2) \<and> c \<in> set cs' \<and>
    conversation_get cs' p1 p2 = Inr (Some c) \<and>
    unique_conversation cs' \<and> unique_pk cs' \<and>
    (cs' = cs \<or> cs' = cs @ [c])"
proof -
  from conversation_get_unique[OF assms(1), of p1 p2]
  show ?thesis
  proof
    assume h: "conversation_get cs p1 p2 = Inr None \<and> (p1, p2) \<notin> set (map participants_of cs)"
    let ?c = "\<lparr>conv_id = new_id, participant_1 = p1, participant_2 = p2,
                created_at = now_c, updated_at = now_u\<rparr>"
    have pc: "participants_of ?c = (p1, p2)" by (simp add: participants_of_def)
    from h assms(3) have cr: "conversation_create cs new_id now_c now_u p1 p2 = Inr (?c, cs @ [?c])"
      by (simp add: conversation_create_def Let_def)
    with h have r: "get_or_create cs new_id now_c now_u p1 p2 = Inr (?c, True, cs @ [?c])"
      by (simp add: get_or_create_def create_or_get_def)
    from h pc have g: "conversation_get (cs @ [?c]) p1 p2 = Inr (Some ?c)"
      by (simp add: conversation_get_after_create)
    from assms(1) h pc have u: "unique_conversation (cs @ [?c])"
      by (simp add: unique_conversation_def)
    from assms(2,3) have k: "unique_pk (cs @ [?c])"
      by (simp add: unique_pk_def)
    from r pc g u k show ?thesis
      by (intro exI[of _ ?c] exI[of _ True] exI[of _ "cs @ [?c]"]) simp
  next
    assume "\<exists>c. conversation_get cs p1 p2 = Inr (Some c) \<and> c \<in> set cs \<and>
         participants_of c = (p1, p2)"
    then obtain c where c: "conversation_get cs p1 p2 = Inr (Some c)" "c \<in> set cs"
        "participants_of c = (p1, p2)" by blast
    then have "get_or_create cs new_id now_c now_u p1 p2 = Inr (c, False, cs)"
      by (simp add: get_or_create_def create_or_get_def)
    with c assms show ?thesis
      by (intro exI[of _ c] exI[of _ False] exI[of _ cs]) simp
  qed
qed

lemma get_or_create_again:
  assumes "conversation_get cs p1 p2 = Inr (Some c)"
  shows "get_or_create cs new_id now_c now_u p1 p2 = Inr (c, False, cs)"
  using assms by (simp add: get_or_create_def)

lemma canonical_pair_swap:
  fixes A B :: str
  assumes "A \<noteq> B"
  shows "(if A < B then (A, B) else (B, A)) = (if B < A then (B, A) else (A, B))"
  using assms by auto

lemma one_per_unordered_pair:
  assumes "unique_conversation cs" and "canonical_order cs"
    and "c1 \<in> set cs" and "c2 \<in> set cs"
    and "{participant_1 c1, participant_2 c1} = {participant_1 c2, participant_2 c2}"
  shows "c1 = c2"
proof -
  from assms(2,3,4) have o: "participant_1 c1 < participant_2 c1" "participant_1 c2 < participant_2 c2"
    by (simp_all add: canonical_order_def list_all_iff)
  with assms(5) have "participants_of c1 = participants_of c2"
    by (auto simp add: participants_of_def doubleton_eq_iff)
  moreover from assms(1) have "inj_on participants_of (set cs)"
    by (simp add: unique_conversation_def distinct_map)
  ultimately show ?thesis using assms(3,4) by (auto dest: inj_onD)
qed

lemma get_or_create_between_unfold:
  "get_or_create_between d new_id now_c now_u user1 user2 =
     (case get_or_create (conversations d) new_id now_c now_u
             (if user1 < user2 then user1 else user2) (if user1 < user2 then user2 else user1) of
        Inl e \<Rightarrow> Inl e
      | Inr (c, created, cs') \<Rightarrow> Inr (c, created, d\<lparr>conversations := cs'\<rparr>))"
  by (simp add: get_or_create_between_def)

text \<open>
  The constraint at work: \<open>create\<close> is refused for a pair that already has a row,
  whatever the identifier and the clock; a \<open>create\<close> that goes through leaves a
  table that satisfies the constraint; and a creator whose \<open>get\<close> came too early
  to see the row that another one has inserted since gets that row from
  \<open>create_or_get\<close>, and inserts nothing.
\<close>

lemma conversation_create_refuses_second_row:
  assumes "(p1, p2) \<in> set (map participants_of cs)"
  shows "conversation_create cs new_id now_c now_u p1 p2 = Inl IntegrityError"
  using assms by (simp add: conversation_create_def)

lemma conversation_create_refuses_used_id:
  assumes "new_id \<in> set (map conv_id cs)"
  shows "conversation_create cs new_id now_c now_u p1 p2 = Inl IntegrityError"
  using assms by (simp add: conversation_create_def)

lemma conversation_create_keeps_constraint:
  assumes "unique_conversation cs"
    and "conversation_create cs new_id now_c now_u p1 p2 = Inr (c, cs')"
  shows "unique_conversation cs' \<and> cs' = cs @ [c] \<and> participants_of c = (p1, p2) \<and>
    conv_id c = new_id \<and> created_at c = now_c \<and> updated_at c = now_u"
proof -
  from assms(2) have no: "(p1, p2) \<notin> set (map participants_of cs)"
    and c: "c = \<lparr>conv_id = new_id, participant_1 = p1, participant_2 = p2,
                created_at = now_c, updated_at = now_u\<rparr>"
    and cs': "cs' = cs @ [c]"
    by (auto simp add: conversation_create_def Let_def split: if_splits)
  from c have pc: "participants_of c = (p1, p2)" by (simp add: participants_of_def)
  with assms(1) no cs' have "unique_conversation cs'"
    by (simp add: unique_conversation_def)
  with cs' pc c show ?thesis by simp
qed

lemma create_or_get_overtaken:
  assumes "unique_conversation cs" and "c \<in> set cs" and "participants_of c = (p1, p2)"
  shows "create_or_get cs new_id now_c now_u p1 p2 = Inr (c, False, cs)"
proof -
  from assms(2,3) have "(p1, p2) \<in> set (map participants_of cs)" by force
  then have refused: "conversation_create cs new_id now_c now_u p1 p2 = Inl IntegrityError"
    by (rule conversation_create_refuses_second_row)
  from conversation_get_unique[OF assms(1), of p1 p2] \<open>(p1, p2) \<in> set (map participants_of cs)\<close>
  obtain c' where g: "conversation_get cs p1 p2 = Inr (Some c')" and m: "c' \<in> set cs"
    and pc: "participants_of c' = (p1, p2)" by blast
  from assms(1) have "inj_on participants_of (set cs)"
    by (simp add: unique_conversation_def distinct_map)
  with assms(2,3) m pc have "c' = c" by (simp add: inj_on_def)
  with refused g show ?thesis by (simp add: create_or_get_def)
qed

text \<open>
  C4. On a table that satisfies its constraints and keeps the participants in
  alphabetical order (the empty table does, and the call keeps it so), and for distinct
  usernames A and B: \<open>get_or_create_between\<close> returns a conversation; it returns the
  same one, and the same table, when A and B are swapped; a later call in either order
  returns that conversation again and creates nothing; the conversation has A and B as
  participants with \<open>participant_1 < participant_2\<close>; the table holds at most one
  conversation for every unordered pair of participants; and the constraint enforces
  it: the database refuses a second row for the ordered pair, a creator that was
  overtaken gets the existing row instead, and whatever row the database does accept
  leaves the constraint satisfied.
\<close>

theorem get_or_create_between_one_conversation:
  fixes A B :: str
  assumes "unique_conversation (conversations d)" and "canonical_order (conversations d)"
    and "unique_pk (conversations d)"
    and "A \<noteq> B" and "new_id \<notin> set (map conv_id (conversations d))"
  shows "\<exists>conv created d'.
      get_or_create_between d new_id now_c now_u A B = Inr (conv, created, d') \<and>
      get_or_create_between d new_id now_c now_u B A = Inr (conv, created, d') \<and>
      get_or_create_between d' new_id' now_c' now_u' B A = Inr (conv, False, d') \<and>
      get_or_create_between d' new_id' now_c' now_u' A B = Inr (conv, False, d') \<and>
      conv \<in> set (conversations d') \<and>
      {participant_1 conv, participant_2 conv} = {A, B} \<and>
      participant_1 conv < participant_2 conv \<and>
      unique_conversation (conversations d') \<and> canonical_order (conversations d') \<and>
      unique_pk (conversations d') \<and>
      (\<forall>c1 \<in> set (conversations d'). \<forall>c2 \<in> set (conversations d').
         {participant_1 c1, participant_2 c1} = {participant_1 c2, participant_2 c2} \<longrightarrow>
         c1 = c2) \<and>
      conversation_create (conversations d') new_id' now_c' now_u'
          (participant_1 conv) (participant_2 conv) = Inl IntegrityError \<and>
      create_or_get (conversations d') new_id' now_c' now_u'
          (participant_1 conv) (participant_2 conv) = Inr (conv, False, conversations d') \<and>
      (\<forall>q1 q2 c cs''.
         conversation_create (conversations d') new_id' now_c' now_u' q1 q2 = Inr (c, cs'') \<longrightarrow>
         unique_conversation cs'' \<and> (q1, q2) \<noteq> (participant_1 conv, participant_2 conv))"
proof -
  define p1 where "p1 = (if A < B then A else B)"
  define p2 where "p2 = (if A < B then B else A)"
  from assms(4) have sw: "(if B < A then B else A) = p1" "(if B < A then A else B) = p2"
    by (auto simp add: p1_def p2_def)
  from assms(4) have lt: "p1 < p2" and set: "{p1, p2} = {A, B}"
    by (auto simp add: p1_def p2_def)
  from get_or_create_unique[OF assms(1) assms(3) assms(5), of now_c now_u p1 p2]
  obtain c created cs' where
    r: "get_or_create (conversations d) new_id now_c now_u p1 p2 = Inr (c, created, cs')"
    and pc: "participants_of c = (p1, p2)" and mem: "c \<in> set cs'"
    and g: "conversation_get cs' p1 p2 = Inr (Some c)"
    and u: "unique_conversation cs'" and k: "unique_pk cs'"
    and cs': "cs' = conversations d \<or> cs' = conversations d @ [c]"
    by blast
  let ?d' = "d\<lparr>conversations := cs'\<rparr>"
  from pc have p: "participant_1 c = p1" "participant_2 c = p2"
    by (simp_all add: participants_of_def)
  from r have first: "get_or_create_between d new_id now_c now_u A B = Inr (c, created, ?d')"
    by (simp add: get_or_create_between_unfold p1_def p2_def)
  from r have swapped: "get_or_create_between d new_id now_c now_u B A = Inr (c, created, ?d')"
    by (simp add: get_or_create_between_unfold sw)
  from get_or_create_again[OF g, of new_id' now_c' now_u']
  have again: "get_or_create (conversations ?d') new_id' now_c' now_u' p1 p2 = Inr (c, False, cs')"
    by simp
  then have second: "get_or_create_between ?d' new_id' now_c' now_u' B A = Inr (c, False, ?d')"
    by (simp add: get_or_create_between_unfold sw)
  from again have third: "get_or_create_between ?d' new_id' now_c' now_u' A B = Inr (c, False, ?d')"
    by (simp add: get_or_create_between_unfold p1_def p2_def)
  from cs' assms(2) p lt have can: "canonical_order cs'"
    by (auto simp add: canonical_order_def)
  have one: "\<forall>c1 \<in> set cs'. \<forall>c2 \<in> set cs'.
         {participant_1 c1, participant_2 c1} = {participant_1 c2, participant_2 c2} \<longrightarrow>
         c1 = c2"
    using one_per_unordered_pair[OF u can] by blast
  from mem pc have pair: "(p1, p2) \<in> set (map participants_of cs')" by force
  then have refused: "conversation_create cs' new_id' now_c' now_u' p1 p2 = Inl IntegrityError"
    by (rule conversation_create_refuses_second_row)
  from create_or_get_overtaken[OF u mem pc]
  have overtaken: "create_or_get cs' new_id' now_c' now_u' p1 p2 = Inr (c, False, cs')" .
  have kept: "\<forall>q1 q2 c2 cs''.
         conversation_create cs' new_id' now_c' now_u' q1 q2 = Inr (c2, cs'') \<longrightarrow>
         unique_conversation cs'' \<and> (q1, q2) \<noteq> (p1, p2)"
    using conversation_create_keeps_constraint[OF u] refused by fastforce
  from first swapped second third mem p lt set u can k one refused overtaken kept
  show ?thesis
    by (intro exI[of _ c] exI[of _ created] exI[of _ ?d']) simp
qed

theorem get_or_create_between_one_conversation_witness:
  "get_or_create_between empty_db 7 100 100 (py ''bob'') (py ''alice'') =
     Inr (alice_bob_conversation, True, empty_db\<lparr>conversations := [alice_bob_conversation]\<rparr>) \<and>
   get_or_create_between (empty_db\<lparr>conversations := [alice_bob_conversation]\<rparr>) 8 200 201
       (py ''alice'') (py ''bob'') =
     Inr (alice_bob_conversation, False, empty_db\<lparr>conversations := [alice_bob_conversation]\<rparr>) \<and>
   conversation_create [alice_bob_conversation] 8 200 201 (py ''alice'') (py ''bob'') =
     Inl IntegrityError \<and>
   create_or_get [alice_bob_conversation] 8 200 201 (py ''alice'') (py ''bob'') =
     Inr (alice_bob_conversation, False, [alice_bob_conversation])"
proof -
  have h: "unique_conversation (conversations empty_db)" "canonical_order (conversations empty_db)"
      "unique_pk (conversations empty_db)" "py ''bob'' \<noteq> py ''alice''"
      "7 \<notin> set (map conv_id (conversations empty_db))"
    by (simp_all add: empty_db_def unique_conversation_def canonical_order_def unique_pk_def py_def)
  have e: "get_or_create_between empty_db 7 100 100 (py ''bob'') (py ''alice'') =
     Inr (alice_bob_conversation, True, empty_db\<lparr>conversations := [alice_bob_conversation]\<rparr>)"
    by (simp add: get_or_create_between_def get_or_create_def create_or_get_def
        conversation_get_def conversation_create_def empty_db_def alice_bob_conversation_def
        py_def Let_def)
  have p: "participant_1 alice_bob_conversation = py ''alice''"
      "participant_2 alice_bob_conversation = py ''bob''"
    by (simp_all add: alice_bob_conversation_def)
  from get_or_create_between_one_conversation[OF h, of 100 100 8 200 201] e p
  show ?thesis by auto
qed

section \<open>Properties of MarkMessagesReadView.patch\<close>

lemma update_read_none_left:
  "filter (unread_from_others cid reader) (fst (update_read now cid reader ms)) = []"
  by (induction ms) (auto simp add: update_read_def unread_from_others_def)

lemma update_read_nothing_to_do:
  assumes "filter (unread_from_others cid reader) ms = []"
  shows "update_read now cid reader ms = (ms, 0)"
proof -
  from assms have "\<forall>m \<in> set ms. \<not> unread_from_others cid reader m"
    by (simp add: filter_empty_conv)
  then have "map (\<lambda>m. if unread_from_others cid reader m
                then m\<lparr>is_read := True, read_at := Some now\<rparr> else m) ms = ms"
    by (induction ms) auto
  with assms show ?thesis by (simp add: update_read_def)
qed

lemma mark_messages_read_patch_Inr:
  assumes "mark_messages_read_patch d u cid now = Inr (d1, n)"
  shows "is_authenticated u \<and>
    (\<exists>conv. filter (\<lambda>c. (participant_1 c = username u \<or> participant_2 c = username u) \<and>
                conv_id c = cid) (conversations d) = [conv]) \<and>
    d1 = d\<lparr>messages := fst (update_read now cid (username u) (messages d))\<rparr> \<and>
    n = snd (update_read now cid (username u) (messages d))"
proof -
  let ?f = "filter (\<lambda>c. (participant_1 c = username u \<or> participant_2 c = username u) \<and>
                conv_id c = cid) (conversations d)"
  from assms have auth: "is_authenticated u"
    by (auto simp add: mark_messages_read_patch_def split: if_splits)
  from assms auth obtain conv where f: "?f = [conv]"
    by (auto simp add: mark_messages_read_patch_def split: list.splits)
  then have "conv \<in> set ?f" by simp
  then have "conv_id conv = cid" by simp
  with assms auth f show ?thesis
    by (auto simp add: mark_messages_read_patch_def split: prod.splits)
qed

text \<open>
  C7. When the request succeeds, the count it returns is the number of unread messages
  of the conversation that the reader did not send; exactly those messages are now read
  and stamped with \<open>read_at\<close>, every other message is as it was; and the same request
  made again returns 0 and changes nothing.
\<close>

theorem mark_read_flips_and_is_idempotent:
  assumes "mark_messages_read_patch d u cid now = Inr (d1, n)"
  shows "n = length (filter (unread_from_others cid (username u)) (messages d)) \<and>
    length (messages d1) = length (messages d) \<and>
    (\<forall>i < length (messages d).
       messages d1 ! i =
         (if unread_from_others cid (username u) (messages d ! i)
          then (messages d ! i)\<lparr>is_read := True, read_at := Some now\<rparr>
          else messages d ! i)) \<and>
    conversations d1 = conversations d \<and>
    mark_messages_read_patch d1 u cid now' = Inr (d1, 0)"
proof -
  note r = mark_messages_read_patch_Inr[OF assms]
  then obtain conv where
    f: "filter (\<lambda>c. (participant_1 c = username u \<or> participant_2 c = username u) \<and>
                conv_id c = cid) (conversations d) = [conv]" by blast
  from r have auth: "is_authenticated u"
    and d1: "d1 = d\<lparr>messages := fst (update_read now cid (username u) (messages d))\<rparr>"
    and n: "n = snd (update_read now cid (username u) (messages d))" by simp_all
  from f have "conv \<in> set (filter (\<lambda>c. (participant_1 c = username u \<or> participant_2 c = username u) \<and>
                conv_id c = cid) (conversations d))" by simp
  then have cid: "conv_id conv = cid" by simp
  from n have count: "n = length (filter (unread_from_others cid (username u)) (messages d))"
    by (simp add: update_read_def)
  from d1 have len: "length (messages d1) = length (messages d)"
    by (simp add: update_read_def)
  from d1 have pt: "\<forall>i < length (messages d).
       messages d1 ! i =
         (if unread_from_others cid (username u) (messages d ! i)
          then (messages d ! i)\<lparr>is_read := True, read_at := Some now\<rparr>
          else messages d ! i)"
    by (simp add: update_read_def)
  from d1 have cs: "conversations d1 = conversations d" by simp
  have "filter (unread_from_others cid (username u)) (messages d1) = []"
    by (simp add: d1 update_read_none_left)
  then have "update_read now' cid (username u) (messages d1) = (messages d1, 0)"
    by (rule update_read_nothing_to_do)
  with auth f cs cid have again: "mark_messages_read_patch d1 u cid now' = Inr (d1, 0)"
    by (simp add: mark_messages_read_patch_def)
  from count len pt cs again show ?thesis by blast
qed

theorem mark_read_flips_and_is_idempotent_witness:
  "mark_messages_read_patch chat_db (MyUser (py ''bob'')) 7 200 = Inr (chat_db_read, 2) \<and>
   mark_messages_read_patch chat_db_read (MyUser (py ''bob'')) 7 300 = Inr (chat_db_read, 0)"
proof -
  have e: "mark_messages_read_patch chat_db (MyUser (py ''bob'')) 7 200 = Inr (chat_db_read, 2)"
    by (simp add: mark_messages_read_patch_def update_read_def unread_from_others_def
        chat_db_def chat_db_read_def alice_bob_conversation_def py_def)
  from mark_read_flips_and_is_idempotent[OF e, of 300] e show ?thesis by simp
qed

section \<open>Properties of JWTAuthMiddleware\<close>

text \<open>The decoder on two-, three- and four-byte sequences, and on ill-formed ones.\<close>

lemma utf8_decode_examples:
  "utf8_decode [0xC3, 0xA9] = Some [0xE9]"
  "utf8_decode [0xE2, 0x82, 0xAC] = Some [0x20AC]"
  "utf8_decode [0xF0, 0x9F, 0x98, 0x80] = Some [0x1F600]"
  "utf8_decode [0xC0, 0x80] = None"
  "utf8_decode [0xED, 0xA0, 0x80] = None"
  "utf8_decode [0xF4, 0x90, 0x80, 0x80] = None"
  "utf8_decode [0x61, 0x80] = None"
  by (simp_all add: is_cont_def second_ok_def)

text \<open>
  C6 asks that token extraction and validation never raise, whatever the handshake
  carries. With no cookie and the query string \<open>token=a=b\<close>, the item splits into
  three parts at its two \<open>=\<close> and \<open>dict\<close> raises \<open>ValueError\<close>, for every token
  verifier and database.
\<close>

theorem query_token_with_two_equals_raises:
  "jwt_auth_middleware_call AccessToken d (handshake [] (pyb ''token=a=b'')) = Inl ValueError"
  by (simp add: jwt_auth_middleware_call_def parse_cookies_def get_token_from_query_def
      handshake_def pyb_def py_def)

text \<open>
  A cookie header that is not UTF-8 raises too. The rest of C6 holds: the cookie is
  tried before the query parameter, and a missing token, a token that the verifier
  refuses and a token for an unknown user all resolve to \<open>AnonymousUser\<close>.
\<close>

lemma cookie_header_not_utf8_raises:
  "jwt_auth_middleware_call AccessToken d (handshake [(pyb ''cookie'', [0xFF])] []) =
     Inl UnicodeDecodeError"
  by (simp add: jwt_auth_middleware_call_def parse_cookies_def handshake_def pyb_def)

lemma cookie_before_query:
  "jwt_auth_middleware_call demo_verifier social_db
      (handshake [(pyb ''cookie'', pyb ''theme=dark; access_token=tokA'')] (pyb ''token=tokB'')) =
     Inr ((handshake [(pyb ''cookie'', pyb ''theme=dark; access_token=tokA'')] (pyb ''token=tokB''))
            \<lparr>scope_user := Some (MyUser (py ''alice''))\<rparr>)"
  by (simp add: jwt_auth_middleware_call_def parse_cookies_def get_token_from_query_def
      handshake_def pyb_def py_def strip_def isspace_def split_once_def
      get_user_from_token_def demo_verifier_def social_db_def)

lemma query_when_no_cookie:
  "jwt_auth_middleware_call demo_verifier social_db
      (handshake [(pyb ''host'', pyb ''example.org'')] (pyb ''token=tokB'')) =
     Inr ((handshake [(pyb ''host'', pyb ''example.org'')] (pyb ''token=tokB''))
            \<lparr>scope_user := Some (MyUser (py ''bob''))\<rparr>)"
  by (simp add: jwt_auth_middleware_call_def parse_cookies_def get_token_from_query_def
      handshake_def pyb_def py_def strip_def isspace_def split_once_def
      get_user_from_token_def demo_verifier_def social_db_def)

lemma failures_resolve_to_anonymous:
  "jwt_auth_middleware_call demo_verifier social_db (handshake [] []) =
     Inr ((handshake [] [])\<lparr>scope_user := Some AnonymousUser\<rparr>)"
  "jwt_auth_middleware_call demo_verifier social_db (handshake [] (pyb ''token=bad'')) =
     Inr ((handshake [] (pyb ''token=bad''))\<lparr>scope_user := Some AnonymousUser\<rparr>)"
  "jwt_auth_middleware_call demo_verifier social_db (handshake [] (pyb ''token=tokZ'')) =
     Inr ((handshake [] (pyb ''token=tokZ''))\<lparr>scope_user := Some AnonymousUser\<rparr>)"
  by (simp_all add: jwt_auth_middleware_call_def parse_cookies_def get_token_from_query_def
      handshake_def pyb_def py_def get_user_from_token_def demo_verifier_def social_db_def)

lemma get_user_from_token_anonymous:
  "get_user_from_token AccessToken d t = AnonymousUser \<longleftrightarrow>
     (\<forall>name. AccessToken t = Some (Some name) \<longrightarrow> name = [] \<or> name \<notin> users d)"
  by (auto simp add: get_user_from_token_def split: option.splits)

lemma middleware_result_user:
  assumes "jwt_auth_middleware_call AccessToken d sc = Inr sc'"
  shows "\<exists>u. sc' = sc\<lparr>scope_user := Some u\<rparr> \<and>
    (u = AnonymousUser \<or> (\<exists>t name. AccessToken t = Some (Some name) \<and> name \<in> users d \<and>
        u = MyUser name))"
  using assms
  by (auto simp add: jwt_auth_middleware_call_def get_user_from_token_def Let_def
      split: sum.splits option.splits if_splits)

end
